theory Spec2Isabelle
  imports Main "HOL-Library.Word"
begin

section \<open>Extraction flags, error codes and messages\<close>

text \<open>
  The extraction flags are single bits of an \<^verbatim>\<open>int\<close>. The public constants
  \<^verbatim>\<open>WIMLIB_EXTRACT_FLAG_*\<close> are declared in \<^verbatim>\<open>wimlib.h\<close>; the two private ones
  (\<^verbatim>\<open>MULTI_IMAGE\<close>, \<^verbatim>\<open>FROM_PIPE\<close>) at the top of \<^verbatim>\<open>extract.c\<close>. A flag word is
  modelled as the set of the flags it holds: \<^verbatim>\<open>flags & F\<close> is \<open>F \<in> flags\<close>,
  \<^verbatim>\<open>(flags & (F | G)) == (F | G)\<close> is \<open>{F, G} \<subseteq> flags\<close>, \<^verbatim>\<open>flags |= F\<close> is
  \<open>insert F flags\<close> and \<^verbatim>\<open>flags &= ~F\<close> is \<open>flags - {F}\<close>.
\<close>

datatype extract_flag =
    WIMLIB_EXTRACT_FLAG_NTFS
  | WIMLIB_EXTRACT_FLAG_HARDLINK
  | WIMLIB_EXTRACT_FLAG_SYMLINK
  | WIMLIB_EXTRACT_FLAG_VERBOSE
  | WIMLIB_EXTRACT_FLAG_SEQUENTIAL
  | WIMLIB_EXTRACT_FLAG_UNIX_DATA
  | WIMLIB_EXTRACT_FLAG_NO_ACLS
  | WIMLIB_EXTRACT_FLAG_STRICT_ACLS
  | WIMLIB_EXTRACT_FLAG_RPFIX
  | WIMLIB_EXTRACT_FLAG_NORPFIX
  | WIMLIB_EXTRACT_FLAG_TO_STDOUT
  | WIMLIB_EXTRACT_FLAG_REPLACE_INVALID_FILENAMES
  | WIMLIB_EXTRACT_FLAG_ALL_CASE_CONFLICTS
  | WIMLIB_EXTRACT_FLAG_STRICT_TIMESTAMPS
  | WIMLIB_EXTRACT_FLAG_STRICT_SHORT_NAMES
  | WIMLIB_EXTRACT_FLAG_STRICT_SYMLINKS
  | WIMLIB_EXTRACT_FLAG_MULTI_IMAGE
  | WIMLIB_EXTRACT_FLAG_FROM_PIPE

text \<open>The flags of the WIM header that the extraction code reads.\<close>

datatype wim_hdr_flag =
    WIM_HDR_FLAG_COMPRESSION
  | WIM_HDR_FLAG_READONLY
  | WIM_HDR_FLAG_SPANNED
  | WIM_HDR_FLAG_RESOURCE_ONLY
  | WIM_HDR_FLAG_METADATA_ONLY
  | WIM_HDR_FLAG_WRITE_IN_PROGRESS
  | WIM_HDR_FLAG_RP_FIX

text \<open>
  Every function of \<^verbatim>\<open>extract.c\<close> returns \<^verbatim>\<open>int\<close>: 0 on success, a positive
  \<^verbatim>\<open>WIMLIB_ERR_*\<close> code on failure. The model returns \<open>None\<close> for 0 and
  \<open>Some e\<close> for the error code \<open>e\<close>.
\<close>

datatype wimlib_error =
    WIMLIB_ERR_INVALID_PARAM
  | WIMLIB_ERR_PATH_DOES_NOT_EXIST
  | WIMLIB_ERR_NOMEM
  | WIMLIB_ERR_OPEN
  | WIMLIB_ERR_READ
  | WIMLIB_ERR_WRITE
  | WIMLIB_ERR_STAT
  | WIMLIB_ERR_MKDIR
  | WIMLIB_ERR_NOTDIR
  | WIMLIB_ERR_NOT_A_REGULAR_FILE
  | WIMLIB_ERR_READLINK
  | WIMLIB_ERR_REPARSE_POINT_FIXUP_FAILED
  | WIMLIB_ERR_UNSUPPORTED
  | WIMLIB_ERR_NOT_PIPABLE
  | WIMLIB_ERR_INVALID_PIPABLE_WIM
  | WIMLIB_ERR_INVALID_IMAGE
  | WIMLIB_ERR_METADATA_NOT_FOUND
  | WIMLIB_ERR_IMAGE_COUNT
  | WIMLIB_ERR_XML
  | WIMLIB_ERR_INVALID_UTF16_STRING
  | WIMLIB_ERR_OTHER nat

text \<open>
  The messages printed by the \<^verbatim>\<open>WARNING\<close> and \<^verbatim>\<open>ERROR\<close> macros, in the order of
  their appearance in \<^verbatim>\<open>extract.c\<close>. A feature warning carries the count it prints.
\<close>

datatype warning =
    Warn_archive_files nat
  | Warn_hidden_files nat
  | Warn_system_files nat
  | Warn_compressed_files nat
  | Warn_encrypted_files nat
  | Warn_not_content_indexed_files nat
  | Warn_sparse_files nat
  | Warn_named_data_streams nat
  | Warn_named_data_streams_linked nat
  | Warn_hard_links nat
  | Warn_other_reparse_points nat
  | Warn_reparse_points nat
  | Warn_security_descriptors nat
  | Warn_short_names nat
  | Warn_unix_data_from_pipe
  | Warn_disabling_sequential
  | Warn_dot_or_dotdot
  | Warn_case_conflict_dummy_name
  | Warn_case_conflict_not_extracting
  | Warn_invalid_filename_dummy_name
  | Warn_invalid_filename_not_extracting
  | Warn_path_too_long

datatype error_message =
    Err_no_ntfs_3g
  | Err_unix_data_unsupported
  | Err_short_names_unsupported
  | Err_timestamps_unsupported
  | Err_security_descriptors_unsupported
  | Err_hard_links_unsupported
  | Err_symlinks_unsupported
  | Err_link_mode_not_on_all_commands
  | Err_not_a_regular_file
  | Err_path_does_not_exist
  | Err_extract_data
  | Err_temporary_filename
  | Err_open_temporary_file
  | Err_pipe_read
  | Err_pipe_invalid

datatype message = WARNING warning | ERROR error_message


definition warn_if :: "bool \<Rightarrow> warning \<Rightarrow> message list" where
  "warn_if c w = (if c then [WARNING w] else [])"


section \<open>Validating extraction commands\<close>

record wimlib_extract_command =
  wim_source_path :: string
  fs_dest_path :: string
  extract_flags :: "extract_flag set"

text \<open>
  \<^verbatim>\<open>check_extract_command\<close> (extract.c, 2152-2222). The function writes the adjusted
  flags back into the command only when it returns 0; the model returns the messages
  printed and either the error code or the updated command. \<open>with_ntfs_3g\<close> is the
  compile-time macro \<^verbatim>\<open>WITH_NTFS_3G\<close>.
\<close>

definition check_extract_command ::
  "bool \<Rightarrow> wimlib_extract_command \<Rightarrow> wim_hdr_flag set
     \<Rightarrow> message list \<times> (wimlib_error + wimlib_extract_command)" where
  "check_extract_command with_ntfs_3g cmd wim_header_flags =
    (if fs_dest_path cmd = [] then ([], Inl WIMLIB_ERR_INVALID_PARAM)
     else if {WIMLIB_EXTRACT_FLAG_SYMLINK, WIMLIB_EXTRACT_FLAG_HARDLINK} \<subseteq> extract_flags cmd
       then ([], Inl WIMLIB_ERR_INVALID_PARAM)
     else if {WIMLIB_EXTRACT_FLAG_NO_ACLS, WIMLIB_EXTRACT_FLAG_STRICT_ACLS} \<subseteq> extract_flags cmd
       then ([], Inl WIMLIB_ERR_INVALID_PARAM)
     else if {WIMLIB_EXTRACT_FLAG_RPFIX, WIMLIB_EXTRACT_FLAG_NORPFIX} \<subseteq> extract_flags cmd
       then ([], Inl WIMLIB_ERR_INVALID_PARAM)
     else if WIMLIB_EXTRACT_FLAG_NTFS \<in> extract_flags cmd \<and> \<not> with_ntfs_3g
       then ([ERROR Err_no_ntfs_3g], Inl WIMLIB_ERR_UNSUPPORTED)
     else
       let fl1 =
             (if extract_flags cmd \<inter> {WIMLIB_EXTRACT_FLAG_RPFIX, WIMLIB_EXTRACT_FLAG_NORPFIX} = {}
                 \<and> WIM_HDR_FLAG_RP_FIX \<in> wim_header_flags
              then insert WIMLIB_EXTRACT_FLAG_RPFIX (extract_flags cmd)
              else extract_flags cmd)
       in if {WIMLIB_EXTRACT_FLAG_UNIX_DATA, WIMLIB_EXTRACT_FLAG_SEQUENTIAL} \<subseteq> fl1
          then (if WIMLIB_EXTRACT_FLAG_FROM_PIPE \<in> fl1
                then ([WARNING Warn_unix_data_from_pipe], Inr (cmd\<lparr>extract_flags := fl1\<rparr>))
                else ([WARNING Warn_disabling_sequential],
                      Inr (cmd\<lparr>extract_flags := fl1 - {WIMLIB_EXTRACT_FLAG_SEQUENTIAL}\<rparr>)))
          else ([], Inr (cmd\<lparr>extract_flags := fl1\<rparr>)))"

text \<open>
  The choice of strategy in \<^verbatim>\<open>extract_tree\<close> (extract.c, 2058-2090): two passes
  (skeleton, then streams) when \<^verbatim>\<open>SEQUENTIAL\<close> or \<^verbatim>\<open>FROM_PIPE\<close> is set, one pass
  (\<^verbatim>\<open>dentry_extract\<close> on every dentry) otherwise.
\<close>

datatype strategy = Single_pass | Two_pass_stream_list | Two_pass_from_pipe

definition extraction_strategy :: "extract_flag set \<Rightarrow> strategy" where
  "extraction_strategy fl =
    (if fl \<inter> {WIMLIB_EXTRACT_FLAG_SEQUENTIAL, WIMLIB_EXTRACT_FLAG_FROM_PIPE} \<noteq> {}
     then (if WIMLIB_EXTRACT_FLAG_FROM_PIPE \<in> fl then Two_pass_from_pipe
           else Two_pass_stream_list)
     else Single_pass)"






section \<open>The image: dentries, inodes and the lookup table\<close>

text \<open>
  A WIM file name is a string of UTF-16LE code units. A \<^verbatim>\<open>tchar\<close> is one code unit of
  the host encoding: a byte on POSIX builds, a 16-bit unit on Windows builds
  (\<^verbatim>\<open>wimlib_tchar.h\<close>); it is modelled by its numeric value.
\<close>

type_synonym utf16lechar = "16 word"
type_synonym tchar = nat
type_synonym sha1_hash = "160 word"

datatype file_attribute =
    FILE_ATTRIBUTE_READONLY
  | FILE_ATTRIBUTE_HIDDEN
  | FILE_ATTRIBUTE_SYSTEM
  | FILE_ATTRIBUTE_DIRECTORY
  | FILE_ATTRIBUTE_ARCHIVE
  | FILE_ATTRIBUTE_SPARSE_FILE
  | FILE_ATTRIBUTE_REPARSE_POINT
  | FILE_ATTRIBUTE_COMPRESSED
  | FILE_ATTRIBUTE_NOT_CONTENT_INDEXED
  | FILE_ATTRIBUTE_ENCRYPTED

text \<open>
  Pointers. A lookup table entry (a blob) and an inode are named by their index in
  the table that holds them; \<^verbatim>\<open>NULL\<close> is \<open>None\<close>. A dentry is named by its position
  below the root of the tree being extracted: the list of child indices on the way
  down, so that \<open>[]\<close> is \<^verbatim>\<open>ctx->extract_root\<close> and the parent of \<open>p @ [i]\<close> is \<open>p\<close>.
\<close>

type_synonym dentry_ptr = "nat list"

record wim_ads_entry =
  stream_name :: "utf16lechar list"
  lte :: "nat option"

text \<open>
  Modelled from the spec: the inode accessors \<^verbatim>\<open>inode_unnamed_lte_resolved\<close>,
  \<^verbatim>\<open>ads_entry_is_named_stream\<close>, \<^verbatim>\<open>inode_is_symlink\<close>, \<^verbatim>\<open>inode_has_unix_data\<close> and
  \<^verbatim>\<open>inode_is_encrypted_directory\<close> live in headers that are not among the sources.
  The spec gives an inode "an attribute bitmask, a reparse tag, a security-descriptor
  index, a link count, an unnamed data stream reference, and 0..N alternate named
  streams". The unnamed stream reference is the field \<open>i_lte\<close>; whether the reparse tag
  is that of a symbolic link or junction and whether the inode carries UNIX data are
  fields as well.
\<close>

record wim_inode =
  i_attributes :: "file_attribute set"
  i_lte :: "nat option"
  i_ads_entries :: "wim_ads_entry list"
  i_nlink :: nat
  i_security_id :: int
  i_is_symlink :: bool
  i_has_unix_data :: bool

definition inode_unnamed_lte_resolved :: "wim_inode \<Rightarrow> nat option" where
  "inode_unnamed_lte_resolved inode = i_lte inode"

definition ads_entry_is_named_stream :: "wim_ads_entry \<Rightarrow> bool" where
  "ads_entry_is_named_stream entry \<longleftrightarrow> stream_name entry \<noteq> []"

definition inode_is_symlink :: "wim_inode \<Rightarrow> bool" where
  "inode_is_symlink inode = i_is_symlink inode"

definition inode_has_unix_data :: "wim_inode \<Rightarrow> bool" where
  "inode_has_unix_data inode = i_has_unix_data inode"

definition inode_has_named_stream :: "wim_inode \<Rightarrow> bool" where
  "inode_has_named_stream inode \<longleftrightarrow> list_ex ads_entry_is_named_stream (i_ads_entries inode)"

definition inode_is_encrypted_directory :: "wim_inode \<Rightarrow> bool" where
  "inode_is_encrypted_directory inode \<longleftrightarrow>
     {FILE_ATTRIBUTE_DIRECTORY, FILE_ATTRIBUTE_ENCRYPTED} \<subseteq> i_attributes inode"

text \<open>
  The fields of \<^verbatim>\<open>struct wim_dentry\<close> that extraction only reads. The scratch fields
  that extraction writes (\<^verbatim>\<open>extraction_skipped\<close>, \<^verbatim>\<open>extraction_name\<close>, \<^verbatim>\<open>tmp_flag\<close>,
  \<^verbatim>\<open>was_hardlinked\<close>) are kept in the state, indexed by the dentry's position.
  \<open>case_insensitive_conflict_list\<close> holds the names of the siblings that differ from
  this dentry only in case.
\<close>

record wim_dentry =
  file_name :: "utf16lechar list"
  short_name_nbytes :: nat
  d_inode :: nat
  case_insensitive_conflict_list :: "utf16lechar list list"

datatype dentry_tree = Dentry wim_dentry "dentry_tree list"

fun dentry_of :: "dentry_tree \<Rightarrow> wim_dentry" where
  "dentry_of (Dentry d cs) = d"

fun children_of :: "dentry_tree \<Rightarrow> dentry_tree list" where
  "children_of (Dentry d cs) = cs"

text \<open>
  \<^verbatim>\<open>struct wim_features\<close>: one counter per feature. In the features an image requires
  it counts files; in the features a backend supports, nonzero means supported.
\<close>

record wim_features =
  archive_files :: nat
  hidden_files :: nat
  system_files :: nat
  compressed_files :: nat
  encrypted_files :: nat
  not_context_indexed_files :: nat
  sparse_files :: nat
  named_data_streams :: nat
  hard_links :: nat
  reparse_points :: nat
  symlink_reparse_points :: nat
  other_reparse_points :: nat
  security_descriptors :: nat
  short_names :: nat
  unix_data :: nat

definition no_features :: wim_features where
  "no_features = \<lparr>archive_files = 0, hidden_files = 0, system_files = 0,
     compressed_files = 0, encrypted_files = 0, not_context_indexed_files = 0,
     sparse_files = 0, named_data_streams = 0, hard_links = 0, reparse_points = 0,
     symlink_reparse_points = 0, other_reparse_points = 0, security_descriptors = 0,
     short_names = 0, unix_data = 0\<rparr>"

text \<open>
  \<^verbatim>\<open>struct wim_lookup_table_entry\<close>. \<open>out_refcnt\<close> and the arrays of referencing dentries
  are the per-extraction scratch fields. The inline array has \<^verbatim>\<open>ARRAY_LEN\<close> slots
  (a constant of the absent header, the parameter \<open>inline_len\<close> of the model); the
  heap array has \<open>alloc_lte_dentries\<close> slots. The counters whose C types the absent
  headers declare are natural numbers; the byte counts, which the source prints with
  \<^verbatim>\<open>PRIu64\<close>, are 64-bit words.
\<close>

datatype resource_location =
    RESOURCE_NONEXISTENT
  | RESOURCE_IN_WIM
  | RESOURCE_IN_FILE_ON_DISK

datatype reshdr_flag =
    WIM_RESHDR_FLAG_FREE
  | WIM_RESHDR_FLAG_METADATA
  | WIM_RESHDR_FLAG_COMPRESSED
  | WIM_RESHDR_FLAG_SPANNED

record resource_entry =
  original_size :: "64 word"
  res_size :: "64 word"
  res_offset :: "64 word"
  res_flags :: "reshdr_flag set"

record wim_lookup_table_entry =
  lte_hash :: sha1_hash
  resource_entry :: resource_entry
  resource_location :: resource_location
  compression_type :: nat
  is_pipable :: bool
  out_refcnt :: nat
  extracted_file :: "tchar list option"
  inline_lte_dentries :: "dentry_ptr list"
  lte_dentries :: "dentry_ptr list"
  alloc_lte_dentries :: nat

text \<open>
  Modelled from the spec: \<^verbatim>\<open>wim_resource_size\<close> is declared in an absent header; it is
  the blob's "uncompressed size".
\<close>

definition wim_resource_size :: "wim_lookup_table_entry \<Rightarrow> 64 word" where
  "wim_resource_size l = original_size (resource_entry l)"


section \<open>The world outside and the state of an extraction\<close>

text \<open>
  What the backend, the C library and the operating system do is recorded as a trace
  of events. A stream handed to the backend is either an entry of the lookup table
  or the copy of an entry that \<^verbatim>\<open>extract_stream_instances\<close> points at a temporary file.
\<close>

datatype stream_source =
    In_lookup_table nat
  | In_temporary_file nat "tchar list"

datatype event =
    Op_start_extract
  | Op_finish_extract
  | Op_abort_extract
  | Op_extract_unnamed_stream "tchar list" stream_source
  | Op_extract_encrypted_stream "tchar list" stream_source
  | Op_extract_named_stream "tchar list" "utf16lechar list" stream_source
  | Op_set_reparse_data "tchar list" stream_source
  | Op_create_symlink "tchar list" stream_source
  | Sys_open_temporary_file "tchar list"
  | Sys_extract_resource_to_fd nat "tchar list"
  | Sys_close_temporary_file "tchar list"
  | Sys_unlink "tchar list"
  | Sys_write_resource_to_stdout nat
  | Pipe_skip_stream sha1_hash
  | Progress_extract_streams "64 word"

text \<open>
  The world is deterministic but arbitrary: the outcome of an operation is a function
  of what has happened so far (the operations performed, each with its outcome), the outcome of the n-th memory allocation a function
  of n. The world also holds what the extraction only reads: the inode table, the
  hash index of the lookup table (\<^verbatim>\<open>__lookup_resource\<close>), the conversion of UTF-16LE
  to the host encoding (\<^verbatim>\<open>utf16le_to_tstr\<close>, the identity on Windows builds, where
  \<open>win32\<close> is set), the outcome of \<^verbatim>\<open>inode_resolve_ltes\<close> and the constant
  \<^verbatim>\<open>ARRAY_LEN(lte->inline_lte_dentries)\<close>.
\<close>

type_synonym history = "(event \<times> wimlib_error option) list"

record world =
  op_result :: "history \<Rightarrow> event \<Rightarrow> wimlib_error option"
  tempnam_result :: "history \<Rightarrow> tchar list option"
  alloc_ok :: "nat \<Rightarrow> bool"
  inodes :: "nat \<Rightarrow> wim_inode"
  lookup_resource :: "sha1_hash \<Rightarrow> nat option"
  utf16le_to_tstr :: "utf16lechar list \<Rightarrow> wimlib_error + tchar list"
  resolve_ltes_result :: "nat \<Rightarrow> wimlib_error option"
  win32 :: bool
  inline_len :: nat

text \<open>
  The fields of \<^verbatim>\<open>struct apply_operations\<close> that the modelled functions read. A
  callback that may be \<^verbatim>\<open>NULL\<close> is a flag saying whether it is there.
  \<open>volume_features\<close> is what \<^verbatim>\<open>start_extract\<close> stores in \<^verbatim>\<open>ctx->supported_features\<close>.
\<close>

record apply_operations =
  path_max :: nat
  path_prefix :: "tchar list"
  path_separator :: tchar
  requires_target_in_paths :: bool
  requires_realtarget_in_paths :: bool
  supports_case_sensitive_filenames :: bool
  has_set_timestamps :: bool
  has_finish_extract :: bool
  has_abort_extract :: bool
  volume_features :: wim_features

text \<open>
  The state: \<^verbatim>\<open>struct apply_ctx\<close>, the scratch fields of the dentries and inodes, the
  lookup table, the number of allocations made, the messages printed and the trace.
\<close>

record apply_state =
  ctx_extract_flags :: "extract_flag set"
  supported_features :: wim_features
  total_bytes :: "64 word"
  num_streams :: "64 word"
  completed_bytes :: "64 word"
  next_progress :: "64 word"
  has_progress_func :: bool
  stream_list :: "nat list"
  num_streams_remaining :: nat
  invalid_sequence :: nat
  ctx_target :: "tchar list"
  ctx_realtarget :: "tchar list"
  extraction_skipped :: "dentry_ptr \<Rightarrow> bool"
  extraction_name :: "dentry_ptr \<Rightarrow> tchar list option"
  was_hardlinked :: "dentry_ptr \<Rightarrow> bool"
  tmp_flag :: "dentry_ptr \<Rightarrow> bool"
  i_visited :: "nat \<Rightarrow> bool"
  lookup_table :: "nat \<Rightarrow> wim_lookup_table_entry"
  n_allocs :: nat
  messages :: "message list"
  trace :: history

definition perform :: "world \<Rightarrow> event \<Rightarrow> apply_state \<Rightarrow> wimlib_error option \<times> apply_state" where
  "perform W ev st =
     (op_result W (trace st) ev, st\<lparr>trace := trace st @ [(ev, op_result W (trace st) ev)]\<rparr>)"

definition allocate :: "world \<Rightarrow> apply_state \<Rightarrow> bool \<times> apply_state" where
  "allocate W st = (alloc_ok W (n_allocs st), st\<lparr>n_allocs := Suc (n_allocs st)\<rparr>)"

definition print_message :: "message \<Rightarrow> apply_state \<Rightarrow> apply_state" where
  "print_message m st = st\<lparr>messages := messages st @ [m]\<rparr>"

text \<open>
  Modelled from the spec: \<^verbatim>\<open>for_dentry_in_tree\<close> is defined in \<^verbatim>\<open>dentry.c\<close>, which is
  not among the sources. It calls the visitor on the dentry, then on each subtree
  in turn ("for each visited dentry in preorder"), and stops at the first nonzero
  return value. The visitor gets the subtree and the position of its root.
\<close>

fun for_dentry_in_tree ::
  "(dentry_tree \<Rightarrow> dentry_ptr \<Rightarrow> 's \<Rightarrow> wimlib_error option \<times> 's)
     \<Rightarrow> dentry_tree \<Rightarrow> dentry_ptr \<Rightarrow> 's \<Rightarrow> wimlib_error option \<times> 's"
and for_dentry_children ::
  "(dentry_tree \<Rightarrow> dentry_ptr \<Rightarrow> 's \<Rightarrow> wimlib_error option \<times> 's)
     \<Rightarrow> dentry_tree list \<Rightarrow> dentry_ptr \<Rightarrow> nat \<Rightarrow> 's \<Rightarrow> wimlib_error option \<times> 's"
where
  "for_dentry_in_tree visitor (Dentry d cs) p st =
    (case visitor (Dentry d cs) p st of
       (Some e, st') \<Rightarrow> (Some e, st')
     | (None, st') \<Rightarrow> for_dentry_children visitor cs p 0 st')"
| "for_dentry_children visitor [] p i st = (None, st)"
| "for_dentry_children visitor (c # cs) p i st =
    (case for_dentry_in_tree visitor c (p @ [i]) st of
       (Some e, st') \<Rightarrow> (Some e, st')
     | (None, st') \<Rightarrow> for_dentry_children visitor cs p (Suc i) st')"

text \<open>The dentries of a tree in the order of the traversal, each with its position.\<close>

fun dentries_preorder :: "dentry_tree \<Rightarrow> dentry_ptr \<Rightarrow> (dentry_tree \<times> dentry_ptr) list"
and children_preorder :: "dentry_tree list \<Rightarrow> dentry_ptr \<Rightarrow> nat \<Rightarrow> (dentry_tree \<times> dentry_ptr) list"
where
  "dentries_preorder (Dentry d cs) p = (Dentry d cs, p) # children_preorder cs p 0"
| "children_preorder [] p i = []"
| "children_preorder (c # cs) p i = dentries_preorder c (p @ [i]) @ children_preorder cs p (Suc i)"

fun for_each_dentry ::
  "(dentry_tree \<Rightarrow> dentry_ptr \<Rightarrow> 's \<Rightarrow> wimlib_error option \<times> 's)
     \<Rightarrow> (dentry_tree \<times> dentry_ptr) list \<Rightarrow> 's \<Rightarrow> wimlib_error option \<times> 's" where
  "for_each_dentry visitor [] st = (None, st)"
| "for_each_dentry visitor ((t, p) # ds) st =
    (case visitor t p st of
       (Some e, st') \<Rightarrow> (Some e, st')
     | (None, st') \<Rightarrow> for_each_dentry visitor ds st')"


section \<open>Planning: the streams to extract\<close>

definition is_linked_extraction :: "apply_state \<Rightarrow> bool" where
  "is_linked_extraction st \<longleftrightarrow>
     ctx_extract_flags st \<inter> {WIMLIB_EXTRACT_FLAG_HARDLINK, WIMLIB_EXTRACT_FLAG_SYMLINK} \<noteq> {}"

definition can_extract_named_data_streams :: "apply_state \<Rightarrow> bool" where
  "can_extract_named_data_streams st \<longleftrightarrow>
     named_data_streams (supported_features st) \<noteq> 0 \<and> \<not> is_linked_extraction st"

definition set_lte :: "nat \<Rightarrow> wim_lookup_table_entry \<Rightarrow> apply_state \<Rightarrow> apply_state" where
  "set_lte b l st = st\<lparr>lookup_table := (lookup_table st)(b := l)\<rparr>"

text \<open>
  The sequential branch of \<^verbatim>\<open>ref_stream_to_extract\<close> (extract.c, 138-176): the dentry
  is stored at index \<open>out_refcnt\<close> of the inline array while that has room, of the
  heap array afterwards. The heap array is allocated with twice the inline length
  when the inline array is full and doubled whenever it is full; \<^verbatim>\<open>REALLOC\<close> keeps the
  old contents, and the first allocation copies the inline array. Slots not written
  yet hold \<open>[]\<close>. The result is \<open>None\<close> when \<^verbatim>\<open>REALLOC\<close> fails.
\<close>

definition append_lte_dentry ::
  "world \<Rightarrow> wim_lookup_table_entry \<Rightarrow> dentry_ptr \<Rightarrow> apply_state
     \<Rightarrow> wim_lookup_table_entry option \<times> apply_state" where
  "append_lte_dentry W l dentry st =
    (if out_refcnt l < inline_len W
     then (Some (l\<lparr>inline_lte_dentries := (inline_lte_dentries l)[out_refcnt l := dentry]\<rparr>), st)
     else
       let prev_lte_dentries =
             (if out_refcnt l = inline_len W then None else Some (lte_dentries l));
           alloc =
             (if out_refcnt l = inline_len W then inline_len W else alloc_lte_dentries l)
       in if out_refcnt l = alloc
          then (case allocate W st of
                  (False, st') \<Rightarrow> (None, st')
                | (True, st') \<Rightarrow>
                    let old = (case prev_lte_dentries of
                                 None \<Rightarrow> take (inline_len W) (inline_lte_dentries l)
                               | Some a \<Rightarrow> take alloc a);
                        new = old @ replicate (2 * alloc - length old) []
                    in (Some (l\<lparr>lte_dentries := new[out_refcnt l := dentry],
                                 alloc_lte_dentries := 2 * alloc\<rparr>), st'))
          else (Some (l\<lparr>lte_dentries := (lte_dentries l)[out_refcnt l := dentry]\<rparr>), st))"

text \<open>\<^verbatim>\<open>ref_stream_to_extract\<close> (extract.c, 119-179).\<close>

definition ref_stream_to_extract ::
  "world \<Rightarrow> nat option \<Rightarrow> dentry_ptr \<Rightarrow> apply_state \<Rightarrow> wimlib_error option \<times> apply_state" where
  "ref_stream_to_extract W lte_ptr dentry st =
    (case lte_ptr of
       None \<Rightarrow> (None, st)
     | Some b \<Rightarrow>
        let l = lookup_table st b;
            st1 = (if \<not> is_linked_extraction st \<or> (out_refcnt l = 0 \<and> extracted_file l = None)
                   then st\<lparr>total_bytes := total_bytes st + wim_resource_size l,
                           num_streams := num_streams st + 1\<rparr>
                   else st);
            st2 = (if out_refcnt l = 0
                   then st1\<lparr>stream_list := stream_list st1 @ [b],
                            num_streams_remaining := Suc (num_streams_remaining st1)\<rparr>
                   else st1)
        in if WIMLIB_EXTRACT_FLAG_SEQUENTIAL \<in> ctx_extract_flags st
           then (case append_lte_dentry W l dentry st2 of
                   (None, st3) \<Rightarrow> (Some WIMLIB_ERR_NOMEM, st3)
                 | (Some l', st3) \<Rightarrow> (None, set_lte b (l'\<lparr>out_refcnt := Suc (out_refcnt l)\<rparr>) st3))
           else (None, set_lte b (l\<lparr>out_refcnt := Suc (out_refcnt l)\<rparr>) st2))"

text \<open>The loop over the named data streams in \<^verbatim>\<open>dentry_add_streams_to_extract\<close>.\<close>

fun ref_named_streams ::
  "world \<Rightarrow> wim_ads_entry list \<Rightarrow> dentry_ptr \<Rightarrow> apply_state \<Rightarrow> wimlib_error option \<times> apply_state" where
  "ref_named_streams W [] dentry st = (None, st)"
| "ref_named_streams W (entry # entries) dentry st =
    (if \<not> ads_entry_is_named_stream entry then ref_named_streams W entries dentry st
     else (case ref_stream_to_extract W (lte entry) dentry st of
             (Some e, st') \<Rightarrow> (Some e, st')
           | (None, st') \<Rightarrow> ref_named_streams W entries dentry st'))"

text \<open>\<^verbatim>\<open>dentry_add_streams_to_extract\<close> (extract.c, 187-226).\<close>

definition dentry_add_streams_to_extract ::
  "world \<Rightarrow> dentry_tree \<Rightarrow> dentry_ptr \<Rightarrow> apply_state \<Rightarrow> wimlib_error option \<times> apply_state" where
  "dentry_add_streams_to_extract W t dentry st =
    (let ino = d_inode (dentry_of t); inode = inodes W ino in
     if extraction_skipped st dentry then (None, st)
     else if i_visited st ino \<and> hard_links (supported_features st) \<noteq> 0 then (None, st)
     else
       (case (if \<not> inode_is_encrypted_directory inode
              then ref_stream_to_extract W (inode_unnamed_lte_resolved inode) dentry st
              else (None, st)) of
          (Some e, st1) \<Rightarrow> (Some e, st1)
        | (None, st1) \<Rightarrow>
           (case (if can_extract_named_data_streams st1
                  then ref_named_streams W (i_ads_entries inode) dentry st1
                  else (None, st1)) of
              (Some e, st2) \<Rightarrow> (Some e, st2)
            | (None, st2) \<Rightarrow> (None, st2\<lparr>i_visited := (i_visited st2)(ino := True)\<rparr>))))"

text \<open>
  \<^verbatim>\<open>dentry_resolve_and_zero_lte_refcnt\<close> (extract.c, 75-103): the streams of an inode
  are the unnamed one and those of the alternate data stream entries.
\<close>

definition zero_lte_refcnt :: "nat option \<Rightarrow> apply_state \<Rightarrow> apply_state" where
  "zero_lte_refcnt lte_ptr st =
    (case lte_ptr of
       None \<Rightarrow> st
     | Some b \<Rightarrow> set_lte b ((lookup_table st b)\<lparr>out_refcnt := 0\<rparr>) st)"

definition dentry_resolve_and_zero_lte_refcnt ::
  "world \<Rightarrow> dentry_tree \<Rightarrow> dentry_ptr \<Rightarrow> apply_state \<Rightarrow> wimlib_error option \<times> apply_state" where
  "dentry_resolve_and_zero_lte_refcnt W t dentry st =
    (let ino = d_inode (dentry_of t); inode = inodes W ino in
     if extraction_skipped st dentry then (None, st)
     else (case resolve_ltes_result W ino of
             Some e \<Rightarrow> (Some e, st)
           | None \<Rightarrow> (None, fold zero_lte_refcnt (i_lte inode # map lte (i_ads_entries inode)) st)))"

text \<open>The planning pass of \<^verbatim>\<open>extract_tree\<close> (extract.c, 1965-1966).\<close>

definition plan_streams ::
  "world \<Rightarrow> dentry_tree \<Rightarrow> apply_state \<Rightarrow> wimlib_error option \<times> apply_state" where
  "plan_streams W root st = for_dentry_in_tree (dentry_add_streams_to_extract W) root [] st"

text \<open>
  The stream references of an image, as the blob accounting invariant of the spec
  counts them: a pair of a dentry that is not skipped and a stream of its inode
  (the unnamed one or an alternate data stream) whose blob is \<open>b\<close>.
\<close>

definition inode_stream_ltes :: "wim_inode \<Rightarrow> nat list" where
  "inode_stream_ltes inode =
     (case i_lte inode of None \<Rightarrow> [] | Some b \<Rightarrow> [b]) @
     concat (map (\<lambda>entry. case lte entry of None \<Rightarrow> [] | Some b \<Rightarrow> [b])
               (filter ads_entry_is_named_stream (i_ads_entries inode)))"

definition stream_references :: "world \<Rightarrow> dentry_tree \<Rightarrow> apply_state \<Rightarrow> nat \<Rightarrow> nat" where
  "stream_references W root st b =
     (\<Sum>(t, p) \<leftarrow> filter (\<lambda>(t, p). \<not> extraction_skipped st p) (dentries_preorder root []).
        count_list (inode_stream_ltes (inodes W (d_inode (dentry_of t)))) b)"

text \<open>
  The references that planning counts. Of the dentries that are not skipped it
  takes every one when the backend has no hard links, and only the first of each
  inode, in traversal order, when it has. Of the streams of the inode it takes the
  unnamed one unless the inode is an encrypted directory, and the named ones only
  when the backend supports named data streams and the extraction is not linked.
\<close>

fun first_links :: "nat set \<Rightarrow> (dentry_tree \<times> dentry_ptr) list \<Rightarrow> (dentry_tree \<times> dentry_ptr) list" where
  "first_links seen [] = []"
| "first_links seen ((t, p) # ds) =
    (if d_inode (dentry_of t) \<in> seen then first_links seen ds
     else (t, p) # first_links (insert (d_inode (dentry_of t)) seen) ds)"

definition planned_dentries ::
  "apply_state \<Rightarrow> nat set \<Rightarrow> (dentry_tree \<times> dentry_ptr) list \<Rightarrow> (dentry_tree \<times> dentry_ptr) list" where
  "planned_dentries st seen ds =
    (let live = filter (\<lambda>(t, p). \<not> extraction_skipped st p) ds
     in if hard_links (supported_features st) \<noteq> 0 then first_links seen live else live)"

definition planned_stream_ltes :: "apply_state \<Rightarrow> wim_inode \<Rightarrow> nat list" where
  "planned_stream_ltes st inode =
     (if inode_is_encrypted_directory inode then []
      else (case i_lte inode of None \<Rightarrow> [] | Some b \<Rightarrow> [b])) @
     (if can_extract_named_data_streams st
      then concat (map (\<lambda>entry. case lte entry of None \<Rightarrow> [] | Some b \<Rightarrow> [b])
                     (filter ads_entry_is_named_stream (i_ads_entries inode)))
      else [])"

definition planned_references ::
  "world \<Rightarrow> apply_state \<Rightarrow> nat set \<Rightarrow> (dentry_tree \<times> dentry_ptr) list \<Rightarrow> nat \<Rightarrow> nat" where
  "planned_references W st seen ds b =
     (\<Sum>(t, p) \<leftarrow> planned_dentries st seen ds.
        count_list (planned_stream_ltes st (inodes W (d_inode (dentry_of t)))) b)"

text \<open>What planning leaves alone: the skip marks, the features and the flags.\<close>

definition plan_frame :: "apply_state \<Rightarrow> apply_state \<Rightarrow> bool" where
  "plan_frame st st' \<longleftrightarrow>
     extraction_skipped st' = extraction_skipped st \<and>
     supported_features st' = supported_features st \<and>
     ctx_extract_flags st' = ctx_extract_flags st"


section \<open>The feature check\<close>

text \<open>
  \<^verbatim>\<open>dentry_tally_features\<close> and \<^verbatim>\<open>dentry_tree_get_features\<close> (extract.c, 1591-1646).
  The tally marks each inode visited, so that a dentry whose inode was seen before
  counts as a hard link; the marks are cleared afterwards.
\<close>

definition bump :: "bool \<Rightarrow> nat \<Rightarrow> nat" where
  "bump c n = (if c then Suc n else n)"

definition dentry_tally_features ::
  "world \<Rightarrow> dentry_tree \<Rightarrow> dentry_ptr \<Rightarrow> wim_features \<times> (nat \<Rightarrow> bool)
     \<Rightarrow> wimlib_error option \<times> wim_features \<times> (nat \<Rightarrow> bool)" where
  "dentry_tally_features W t dentry fv =
    (case fv of (features, visited) \<Rightarrow>
      let ino = d_inode (dentry_of t); inode = inodes W ino; a = i_attributes inode;
          rp = (FILE_ATTRIBUTE_REPARSE_POINT \<in> a)
      in (None,
          \<lparr>archive_files = bump (FILE_ATTRIBUTE_ARCHIVE \<in> a) (archive_files features),
           hidden_files = bump (FILE_ATTRIBUTE_HIDDEN \<in> a) (hidden_files features),
           system_files = bump (FILE_ATTRIBUTE_SYSTEM \<in> a) (system_files features),
           compressed_files = bump (FILE_ATTRIBUTE_COMPRESSED \<in> a) (compressed_files features),
           encrypted_files = bump (FILE_ATTRIBUTE_ENCRYPTED \<in> a) (encrypted_files features),
           not_context_indexed_files =
             bump (FILE_ATTRIBUTE_NOT_CONTENT_INDEXED \<in> a) (not_context_indexed_files features),
           sparse_files = bump (FILE_ATTRIBUTE_SPARSE_FILE \<in> a) (sparse_files features),
           named_data_streams = bump (inode_has_named_stream inode) (named_data_streams features),
           hard_links = bump (visited ino) (hard_links features),
           reparse_points = bump rp (reparse_points features),
           symlink_reparse_points =
             bump (rp \<and> inode_is_symlink inode) (symlink_reparse_points features),
           other_reparse_points =
             bump (rp \<and> \<not> inode_is_symlink inode) (other_reparse_points features),
           security_descriptors = bump (i_security_id inode \<noteq> - 1) (security_descriptors features),
           short_names = bump (short_name_nbytes (dentry_of t) \<noteq> 0) (short_names features),
           unix_data = bump (inode_has_unix_data inode) (unix_data features)\<rparr>,
          visited(ino := True)))"

definition dentry_tree_get_features :: "world \<Rightarrow> dentry_tree \<Rightarrow> wim_features" where
  "dentry_tree_get_features W root =
     fst (snd (for_dentry_in_tree (dentry_tally_features W) root [] (no_features, (\<lambda>i. False))))"

text \<open>
  \<^verbatim>\<open>do_feature_check\<close> (extract.c, 1648-1831): first the warnings, each under its own
  test, then the tests that end in \<^verbatim>\<open>WIMLIB_ERR_UNSUPPORTED\<close>, in the order of the
  source. The warning for sparse files prints the count of the files that are not
  content indexed, as the source does. The result is the messages and the return
  value.
\<close>

definition feature_warnings :: "wim_features \<Rightarrow> wim_features \<Rightarrow> extract_flag set \<Rightarrow> message list" where
  "feature_warnings required supported fl =
     warn_if (archive_files required \<noteq> 0 \<and> archive_files supported = 0)
       (Warn_archive_files (archive_files required)) @
     warn_if (hidden_files required \<noteq> 0 \<and> hidden_files supported = 0)
       (Warn_hidden_files (hidden_files required)) @
     warn_if (system_files required \<noteq> 0 \<and> system_files supported = 0)
       (Warn_system_files (system_files required)) @
     warn_if (compressed_files required \<noteq> 0 \<and> compressed_files supported = 0)
       (Warn_compressed_files (compressed_files required)) @
     warn_if (encrypted_files required \<noteq> 0 \<and> encrypted_files supported = 0)
       (Warn_encrypted_files (encrypted_files required)) @
     warn_if (not_context_indexed_files required \<noteq> 0 \<and> not_context_indexed_files supported = 0)
       (Warn_not_content_indexed_files (not_context_indexed_files required)) @
     warn_if (sparse_files required \<noteq> 0 \<and> sparse_files supported = 0)
       (Warn_sparse_files (not_context_indexed_files required)) @
     warn_if (named_data_streams required \<noteq> 0 \<and> named_data_streams supported = 0)
       (Warn_named_data_streams (named_data_streams required)) @
     warn_if (fl \<inter> {WIMLIB_EXTRACT_FLAG_HARDLINK, WIMLIB_EXTRACT_FLAG_SYMLINK} \<noteq> {} \<and>
              named_data_streams required \<noteq> 0 \<and> named_data_streams supported \<noteq> 0)
       (Warn_named_data_streams_linked (named_data_streams required)) @
     warn_if (hard_links required \<noteq> 0 \<and> hard_links supported = 0)
       (Warn_hard_links (hard_links required)) @
     (if reparse_points required \<noteq> 0 \<and> reparse_points supported = 0
      then (if symlink_reparse_points supported \<noteq> 0
            then warn_if (other_reparse_points required \<noteq> 0)
                   (Warn_other_reparse_points (other_reparse_points required))
            else [WARNING (Warn_reparse_points (reparse_points required))])
      else []) @
     warn_if (security_descriptors required \<noteq> 0 \<and> security_descriptors supported = 0)
       (Warn_security_descriptors (security_descriptors required)) @
     warn_if (short_names required \<noteq> 0 \<and> short_names supported = 0)
       (Warn_short_names (short_names required))"

definition do_feature_check ::
  "wim_features \<Rightarrow> wim_features \<Rightarrow> extract_flag set \<Rightarrow> apply_operations
     \<Rightarrow> message list \<times> wimlib_error option" where
  "do_feature_check required supported fl ops =
    (let log = feature_warnings required supported fl in
     if WIMLIB_EXTRACT_FLAG_UNIX_DATA \<in> fl \<and> unix_data required \<noteq> 0 \<and> unix_data supported = 0
       then (log @ [ERROR Err_unix_data_unsupported], Some WIMLIB_ERR_UNSUPPORTED)
     else if WIMLIB_EXTRACT_FLAG_STRICT_SHORT_NAMES \<in> fl \<and> short_names required \<noteq> 0 \<and>
             short_names supported = 0
       then (log @ [ERROR Err_short_names_unsupported], Some WIMLIB_ERR_UNSUPPORTED)
     else if WIMLIB_EXTRACT_FLAG_STRICT_TIMESTAMPS \<in> fl \<and> \<not> has_set_timestamps ops
       then (log @ [ERROR Err_timestamps_unsupported], Some WIMLIB_ERR_UNSUPPORTED)
     else if fl \<inter> {WIMLIB_EXTRACT_FLAG_STRICT_ACLS, WIMLIB_EXTRACT_FLAG_UNIX_DATA}
               = {WIMLIB_EXTRACT_FLAG_STRICT_ACLS} \<and>
             security_descriptors required \<noteq> 0 \<and> security_descriptors supported = 0
       then (log @ [ERROR Err_security_descriptors_unsupported], Some WIMLIB_ERR_UNSUPPORTED)
     else if WIMLIB_EXTRACT_FLAG_HARDLINK \<in> fl \<and> hard_links supported = 0
       then (log @ [ERROR Err_hard_links_unsupported], Some WIMLIB_ERR_UNSUPPORTED)
     else if WIMLIB_EXTRACT_FLAG_SYMLINK \<in> fl \<and> symlink_reparse_points supported = 0
       then (log @ [ERROR Err_symlinks_unsupported], Some WIMLIB_ERR_UNSUPPORTED)
     else (log, None))"



section \<open>Extraction names\<close>

text \<open>
  \<^verbatim>\<open>file_name_valid\<close> (extract.c, 1371-1416). \<open>w32\<close> is the compile-time macro
  \<^verbatim>\<open>__WIN32__\<close>. The characters of the \<^verbatim>\<open>switch\<close>: slash and NUL always; on Windows
  also backslash, colon, asterisk, question mark, double quote, less than, greater
  than and vertical bar.
\<close>

definition replacement_char :: "bool \<Rightarrow> utf16lechar" where
  "replacement_char w32 = (if w32 then 0xFFFD else 0x3F)"

definition forbidden_char :: "bool \<Rightarrow> utf16lechar \<Rightarrow> bool" where
  "forbidden_char w32 c \<longleftrightarrow>
     c = 0x2F \<or> c = 0 \<or>
     (w32 \<and> (c = 0x5C \<or> c = 0x3A \<or> c = 0x2A \<or> c = 0x3F \<or> c = 0x22 \<or> c = 0x3C \<or>
             c = 0x3E \<or> c = 0x7C))"

text \<open>
  The loop over the code units: \<open>None\<close> when it returns \<^verbatim>\<open>false\<close> (a forbidden
  character without \<open>fix\<close>), the buffer after the loop otherwise.
\<close>

fun file_name_valid_chars :: "bool \<Rightarrow> bool \<Rightarrow> utf16lechar list \<Rightarrow> utf16lechar list option" where
  "file_name_valid_chars w32 fix [] = Some []"
| "file_name_valid_chars w32 fix (c # cs) =
    (if forbidden_char w32 c
     then (if fix
           then map_option ((#) (replacement_char w32)) (file_name_valid_chars w32 fix cs)
           else None)
     else map_option ((#) c) (file_name_valid_chars w32 fix cs))"

text \<open>The result and the buffer as the call leaves it.\<close>

definition file_name_valid :: "bool \<Rightarrow> utf16lechar list \<Rightarrow> bool \<Rightarrow> bool \<times> utf16lechar list" where
  "file_name_valid w32 name fix =
    (if name = [] then (True, name)
     else (case file_name_valid_chars w32 fix name of
             None \<Rightarrow> (False, name)
           | Some name1 \<Rightarrow>
               if w32 \<and> (last name1 = 0x20 \<or> last name1 = 0x2E)
               then (if fix then (True, butlast name1 @ [replacement_char w32])
                     else (False, name1))
               else (True, name1)))"

text \<open>
  \<^verbatim>\<open>dentry_is_dot_or_dotdot\<close> (extract.c, 1418-1427) reads the name as a C string:
  the unit after the last one is the terminating NUL.
\<close>

fun dentry_is_dot_or_dotdot :: "utf16lechar list \<Rightarrow> bool" where
  "dentry_is_dot_or_dotdot [] = False"
| "dentry_is_dot_or_dotdot [c0] = (c0 = 0x2E)"
| "dentry_is_dot_or_dotdot [c0, c1] = (c0 = 0x2E \<and> (c1 = 0 \<or> c1 = 0x2E))"
| "dentry_is_dot_or_dotdot (c0 # c1 # c2 # cs) =
     (c0 = 0x2E \<and> (c1 = 0 \<or> (c1 = 0x2E \<and> c2 = 0)))"

text \<open>\<^verbatim>\<open>dentry_is_supported\<close> (extract.c, 795-811).\<close>

definition dentry_is_supported :: "world \<Rightarrow> dentry_tree \<Rightarrow> wim_features \<Rightarrow> bool" where
  "dentry_is_supported W t supported =
    (let inode = inodes W (d_inode (dentry_of t)) in
     if FILE_ATTRIBUTE_REPARSE_POINT \<in> i_attributes inode
     then (if reparse_points supported \<noteq> 0 then True
           else if symlink_reparse_points supported \<noteq> 0 \<and> inode_is_symlink inode then True
           else False)
     else True)"

text \<open>\<^verbatim>\<open>dentry_mark_skipped\<close> (extract.c, 1429-1434) and the label \<^verbatim>\<open>skip_dentry\<close>.\<close>

definition dentry_mark_skipped ::
  "dentry_tree \<Rightarrow> dentry_ptr \<Rightarrow> apply_state \<Rightarrow> wimlib_error option \<times> apply_state" where
  "dentry_mark_skipped t dentry st =
     (None, st\<lparr>extraction_skipped := (extraction_skipped st)(dentry := True)\<rparr>)"

definition skip_dentry ::
  "dentry_tree \<Rightarrow> dentry_ptr \<Rightarrow> apply_state \<Rightarrow> wimlib_error option \<times> apply_state" where
  "skip_dentry t dentry st = (None, snd (for_dentry_in_tree dentry_mark_skipped t dentry st))"

text \<open>The number printed by \<^verbatim>\<open>%lu\<close>, and the suffix of a substituted name.\<close>

fun decimal :: "nat \<Rightarrow> tchar list" where
  "decimal n = (if n < 10 then [48 + n] else decimal (n div 10) @ [48 + n mod 10])"

declare decimal.simps [simp del]

definition invalid_filename_suffix :: "nat \<Rightarrow> tchar list" where
  "invalid_filename_suffix n = map of_char '' (invalid filename #'' @ decimal n @ map of_char '')''"

text \<open>
  The label \<^verbatim>\<open>out_replace\<close> (extract.c, 1531-1566): the name is copied and fixed,
  converted to the host encoding (on Windows it is used as it is), the counter is
  incremented and printed after it, and the result is duplicated into
  \<^verbatim>\<open>extraction_name\<close>.
\<close>

definition out_replace ::
  "world \<Rightarrow> dentry_tree \<Rightarrow> dentry_ptr \<Rightarrow> apply_state \<Rightarrow> wimlib_error option \<times> apply_state" where
  "out_replace W t dentry st =
    (let utf16_name_copy = snd (file_name_valid (win32 W) (file_name (dentry_of t)) True) in
     case (if win32 W then Inr (map unat utf16_name_copy) else utf16le_to_tstr W utf16_name_copy) of
       Inl e \<Rightarrow> (Some e, st)
     | Inr tchar_name \<Rightarrow>
         let st1 = st\<lparr>invalid_sequence := Suc (invalid_sequence st)\<rparr>;
             fixed_name = tchar_name @ invalid_filename_suffix (invalid_sequence st1)
         in (case allocate W st1 of
               (False, st2) \<Rightarrow> (Some WIMLIB_ERR_NOMEM, st2)
             | (True, st2) \<Rightarrow>
                 (None, st2\<lparr>extraction_name := (extraction_name st2)(dentry := Some fixed_name)\<rparr>)))"

text \<open>\<^verbatim>\<open>dentry_calculate_extraction_path\<close> (extract.c, 1454-1571).\<close>

definition dentry_calculate_extraction_path ::
  "world \<Rightarrow> apply_operations \<Rightarrow> dentry_tree \<Rightarrow> dentry_ptr \<Rightarrow> apply_state
     \<Rightarrow> wimlib_error option \<times> apply_state" where
  "dentry_calculate_extraction_path W ops t dentry st =
    (let d = dentry_of t in
     if dentry = [] \<or> extraction_skipped st dentry then (None, st)
     else if \<not> dentry_is_supported W t (supported_features st) then skip_dentry t dentry st
     else if dentry_is_dot_or_dotdot (file_name d)
       then skip_dentry t dentry (print_message (WARNING Warn_dot_or_dotdot) st)
     else if win32 W \<and> \<not> supports_case_sensitive_filenames ops \<and>
             case_insensitive_conflict_list d \<noteq> []
       then (if WIMLIB_EXTRACT_FLAG_ALL_CASE_CONFLICTS \<in> ctx_extract_flags st
             then out_replace W t dentry (print_message (WARNING Warn_case_conflict_dummy_name) st)
             else skip_dentry t dentry
                    (print_message (WARNING Warn_case_conflict_not_extracting) st))
     else if fst (file_name_valid (win32 W) (file_name d) False)
       then (if win32 W
             then (None, st\<lparr>extraction_name :=
                               (extraction_name st)(dentry := Some (map unat (file_name d)))\<rparr>)
             else (case utf16le_to_tstr W (file_name d) of
                     Inl e \<Rightarrow> (Some e, st)
                   | Inr s \<Rightarrow>
                       (None, st\<lparr>extraction_name := (extraction_name st)(dentry := Some s)\<rparr>)))
     else if WIMLIB_EXTRACT_FLAG_REPLACE_INVALID_FILENAMES \<in> ctx_extract_flags st
       then out_replace W t dentry (print_message (WARNING Warn_invalid_filename_dummy_name) st)
     else skip_dentry t dentry (print_message (WARNING Warn_invalid_filename_not_extracting) st))"

definition calculate_extraction_paths ::
  "world \<Rightarrow> apply_operations \<Rightarrow> dentry_tree \<Rightarrow> apply_state \<Rightarrow> wimlib_error option \<times> apply_state" where
  "calculate_extraction_paths W ops root st =
     for_dentry_in_tree (dentry_calculate_extraction_path W ops) root [] st"

text \<open>
  What C5 says of a name: it has an invalid character when a code unit is forbidden
  or, on Windows, the last one is a space or a dot; the substitute replaces each of
  these by the replacement character.
\<close>

definition has_invalid_char :: "bool \<Rightarrow> utf16lechar list \<Rightarrow> bool" where
  "has_invalid_char w32 name \<longleftrightarrow>
     list_ex (forbidden_char w32) name \<or>
     (w32 \<and> name \<noteq> [] \<and> (last name = 0x20 \<or> last name = 0x2E))"

definition replace_invalid_chars :: "bool \<Rightarrow> utf16lechar list \<Rightarrow> utf16lechar list" where
  "replace_invalid_chars w32 name =
    (let name1 = map (\<lambda>c. if forbidden_char w32 c then replacement_char w32 else c) name
     in if w32 \<and> name \<noteq> [] \<and> (last name = 0x20 \<or> last name = 0x2E)
        then butlast name1 @ [replacement_char w32] else name1)"

text \<open>The positions of a subtree: its root and every descendant.\<close>

definition subtree_ptrs :: "dentry_tree \<Rightarrow> dentry_ptr \<Rightarrow> dentry_ptr list" where
  "subtree_ptrs t p = map snd (dentries_preorder t p)"


section \<open>Extracting streams\<close>

text \<open>
  \<^verbatim>\<open>build_extraction_path\<close> (extract.c, 825-875): the prefix, the target if the
  backend wants it, then a separator and the extraction name for each dentry from
  the child of the extraction root down to this one. The result is \<open>None\<close> where the
  source returns \<^verbatim>\<open>false\<close>. The terminating NUL counts for the length test.
\<close>

definition ancestor_ptrs :: "dentry_ptr \<Rightarrow> dentry_ptr list" where
  "ancestor_ptrs dentry = map (\<lambda>k. take k dentry) [1..<Suc (length dentry)]"

definition build_extraction_path ::
  "apply_operations \<Rightarrow> dentry_ptr \<Rightarrow> apply_state \<Rightarrow> tchar list option \<times> apply_state" where
  "build_extraction_path ops dentry st =
    (if extraction_skipped st dentry then (None, st)
     else
       let target_prefix =
             (if requires_realtarget_in_paths ops then ctx_realtarget st
              else if requires_target_in_paths ops then ctx_target st
              else []);
           names = map (\<lambda>d. case extraction_name st d of None \<Rightarrow> [] | Some n \<Rightarrow> n)
                     (ancestor_ptrs dentry);
           path_nchars = length (path_prefix ops) + length target_prefix +
                         sum_list (map (\<lambda>n. length n + 1) names) + 1
       in if path_nchars > path_max ops
          then (None, print_message (WARNING Warn_path_too_long) st)
          else (Some (path_prefix ops @ target_prefix @
                      concat (map (\<lambda>n. path_separator ops # n) names)), st))"

text \<open>
  \<^verbatim>\<open>update_extract_progress\<close> (extract.c, 230-252). The call of the progress function
  is an event of the trace, with the number of bytes completed.
\<close>

definition update_extract_progress :: "wim_lookup_table_entry \<Rightarrow> apply_state \<Rightarrow> apply_state" where
  "update_extract_progress l st =
    (let st1 = st\<lparr>completed_bytes := completed_bytes st + wim_resource_size l\<rparr> in
     if has_progress_func st1 \<and> next_progress st1 \<le> completed_bytes st1
     then
       let st2 = st1\<lparr>trace := trace st1 @ [(Progress_extract_streams (completed_bytes st1), None)]\<rparr>
       in if total_bytes st2 \<le> completed_bytes st2
          then st2\<lparr>next_progress := - 1\<rparr>
          else
            let np = next_progress st2 + total_bytes st2 div 128
            in st2\<lparr>next_progress := (if total_bytes st2 < np then total_bytes st2 else np)\<rparr>
     else st1)"

text \<open>
  The stream a backend callback is given: the entry itself or, when a stream was
  specified, its override. The size of either is that of the entry in the table.
\<close>

fun source_lte :: "stream_source \<Rightarrow> nat" where
  "source_lte (In_lookup_table b) = b"
| "source_lte (In_temporary_file b name) = b"

definition source_for :: "(nat \<times> stream_source) option \<Rightarrow> nat \<Rightarrow> stream_source" where
  "source_for spec b = (case spec of None \<Rightarrow> In_lookup_table b | Some (lte_spec, lte_override) \<Rightarrow> lte_override)"

text \<open>
  One backend operation on a stream followed, when it succeeds, by the progress
  update. \<^verbatim>\<open>extract_reparse_data\<close> and \<^verbatim>\<open>extract_symlink\<close> read the stream they are
  given, rewrite the link target and call the backend; each is one operation here,
  with the outcome the world decides.
\<close>

definition stream_operation ::
  "world \<Rightarrow> event \<Rightarrow> stream_source \<Rightarrow> apply_state \<Rightarrow> wimlib_error option \<times> apply_state" where
  "stream_operation W ev src st =
    (case perform W ev st of
       (Some e, st') \<Rightarrow> (Some e, st')
     | (None, st') \<Rightarrow> (None, update_extract_progress (lookup_table st' (source_lte src)) st'))"

text \<open>
  \<^verbatim>\<open>extract_streams\<close> (extract.c, 548-633). \<open>spec\<close> is the pair of \<^verbatim>\<open>lte_spec\<close> and
  \<^verbatim>\<open>lte_override\<close>, \<open>None\<close> when \<^verbatim>\<open>lte_spec\<close> is \<^verbatim>\<open>NULL\<close>. First the loop over the
  named data streams, then the function.
\<close>

fun extract_named_streams ::
  "world \<Rightarrow> tchar list \<Rightarrow> wim_ads_entry list \<Rightarrow> (nat \<times> stream_source) option \<Rightarrow> apply_state
     \<Rightarrow> wimlib_error option \<times> apply_state" where
  "extract_named_streams W path [] spec st = (None, st)"
| "extract_named_streams W path (entry # entries) spec st =
    (if \<not> ads_entry_is_named_stream entry then extract_named_streams W path entries spec st
     else (case lte entry of
             None \<Rightarrow> extract_named_streams W path entries spec st
           | Some b \<Rightarrow>
               if spec \<noteq> None \<and> fst (the spec) \<noteq> b
               then extract_named_streams W path entries spec st
               else (case stream_operation W
                            (Op_extract_named_stream path (stream_name entry) (source_for spec b))
                            (source_for spec b) st of
                       (Some e, st') \<Rightarrow> (Some e, print_message (ERROR Err_extract_data) st')
                     | (None, st') \<Rightarrow> extract_named_streams W path entries spec st')))"

definition extract_unnamed_stream ::
  "world \<Rightarrow> tchar list \<Rightarrow> wim_inode \<Rightarrow> (nat \<times> stream_source) option \<Rightarrow> apply_state
     \<Rightarrow> wimlib_error option \<times> apply_state" where
  "extract_unnamed_stream W path inode spec st =
    (case inode_unnamed_lte_resolved inode of
       None \<Rightarrow> (None, st)
     | Some b \<Rightarrow>
         if spec \<noteq> None \<and> fst (the spec) \<noteq> b then (None, st)
         else
           let src = source_for spec b in
           if i_attributes inode \<inter> {FILE_ATTRIBUTE_DIRECTORY, FILE_ATTRIBUTE_REPARSE_POINT} = {}
           then (case stream_operation W
                        (if FILE_ATTRIBUTE_ENCRYPTED \<in> i_attributes inode \<and>
                            encrypted_files (supported_features st) \<noteq> 0
                         then Op_extract_encrypted_stream path src
                         else Op_extract_unnamed_stream path src) src st of
                   (Some e, st') \<Rightarrow> (Some e, print_message (ERROR Err_extract_data) st')
                 | (None, st') \<Rightarrow> (None, st'))
           else if FILE_ATTRIBUTE_REPARSE_POINT \<in> i_attributes inode
           then (if reparse_points (supported_features st) \<noteq> 0
                 then stream_operation W (Op_set_reparse_data path src) src st
                 else if \<not> win32 W \<and> inode_is_symlink inode \<and>
                         symlink_reparse_points (supported_features st) \<noteq> 0
                 then stream_operation W (Op_create_symlink path src) src st
                 else (None, st))
           else (None, st))"

definition extract_streams ::
  "world \<Rightarrow> tchar list \<Rightarrow> dentry_tree \<Rightarrow> dentry_ptr \<Rightarrow> (nat \<times> stream_source) option
     \<Rightarrow> apply_state \<Rightarrow> wimlib_error option \<times> apply_state" where
  "extract_streams W path t dentry spec st =
    (let inode = inodes W (d_inode (dentry_of t)) in
     if was_hardlinked st dentry then (None, st)
     else (case extract_unnamed_stream W path inode spec st of
             (Some e, st1) \<Rightarrow> (Some e, st1)
           | (None, st1) \<Rightarrow>
               if can_extract_named_data_streams st1
               then extract_named_streams W path (i_ads_entries inode) spec st1
               else (None, st1)))"

text \<open>The dentry at a position of the tree, if there is one.\<close>

fun dentry_at :: "dentry_tree \<Rightarrow> dentry_ptr \<Rightarrow> dentry_tree option" where
  "dentry_at t [] = Some t"
| "dentry_at (Dentry d cs) (i # p) = (if i < length cs then dentry_at (cs ! i) p else None)"

text \<open>
  The loop of \<^verbatim>\<open>extract_stream_instances\<close> over the dentries that reference the
  stream (extract.c, 1164-1176). The array holds pointers that planning stored,
  which are positions of the tree; an entry that is none is passed over.
\<close>

fun extract_instances ::
  "world \<Rightarrow> apply_operations \<Rightarrow> dentry_tree \<Rightarrow> nat \<Rightarrow> stream_source \<Rightarrow> dentry_ptr list
     \<Rightarrow> apply_state \<Rightarrow> wimlib_error option \<times> apply_state" where
  "extract_instances W ops root b lte_override [] st = (None, st)"
| "extract_instances W ops root b lte_override (dentry # dentries) st =
    (case dentry_at root dentry of
       None \<Rightarrow> extract_instances W ops root b lte_override dentries st
     | Some t \<Rightarrow>
         if tmp_flag st dentry then extract_instances W ops root b lte_override dentries st
         else (case build_extraction_path ops dentry st of
                 (None, st1) \<Rightarrow> extract_instances W ops root b lte_override dentries st1
               | (Some path, st1) \<Rightarrow>
                   (case extract_streams W path t dentry (Some (b, lte_override)) st1 of
                      (Some e, st2) \<Rightarrow> (Some e, st2)
                    | (None, st2) \<Rightarrow>
                        extract_instances W ops root b lte_override dentries
                          (st2\<lparr>tmp_flag := (tmp_flag st2)(dentry := True)\<rparr>))))"

definition clear_tmp_flags :: "dentry_ptr list \<Rightarrow> apply_state \<Rightarrow> apply_state" where
  "clear_tmp_flags dentries st =
     st\<lparr>tmp_flag := (\<lambda>d. if d \<in> set dentries then False else tmp_flag st d)\<rparr>"

text \<open>
  \<^verbatim>\<open>extract_stream_instances\<close> (extract.c, 1103-1190). \<^verbatim>\<open>ttempnam\<close> only chooses a
  name; \<^verbatim>\<open>topen\<close> creates the file. The result of \<^verbatim>\<open>tunlink\<close> is not looked at.
\<close>

definition extract_stream_instances ::
  "world \<Rightarrow> apply_operations \<Rightarrow> dentry_tree \<Rightarrow> nat \<Rightarrow> bool \<Rightarrow> apply_state
     \<Rightarrow> wimlib_error option \<times> apply_state" where
  "extract_stream_instances W ops root b can_seek st =
    (let l = lookup_table st b;
         dentries = take (out_refcnt l)
                      (if out_refcnt l \<le> inline_len W then inline_lte_dentries l
                       else lte_dentries l)
     in if can_seek \<or> out_refcnt l < 2
        then (case extract_instances W ops root b (In_lookup_table b) dentries st of
                (ret, st1) \<Rightarrow> (ret, clear_tmp_flags dentries st1))
        else
          (case tempnam_result W (trace st) of
             None \<Rightarrow> (Some WIMLIB_ERR_OPEN, print_message (ERROR Err_temporary_filename) st)
           | Some stream_tmp_filename \<Rightarrow>
              (case allocate W st of
                 (False, st1) \<Rightarrow> (Some WIMLIB_ERR_NOMEM, st1)
               | (True, st1) \<Rightarrow>
                  (case perform W (Sys_open_temporary_file stream_tmp_filename) st1 of
                     (Some e, st2) \<Rightarrow>
                       (Some WIMLIB_ERR_OPEN, print_message (ERROR Err_open_temporary_file) st2)
                   | (None, st2) \<Rightarrow>
                      (case perform W (Sys_extract_resource_to_fd b stream_tmp_filename) st2 of
                         (ret1, st3) \<Rightarrow>
                          (case perform W (Sys_close_temporary_file stream_tmp_filename) st3 of
                             (ret2, st4) \<Rightarrow>
                               let ret = (if ret2 \<noteq> None \<and> ret1 = None
                                          then Some WIMLIB_ERR_WRITE else ret1)
                               in if ret \<noteq> None
                                  then (ret, snd (perform W (Sys_unlink stream_tmp_filename) st4))
                                  else
                                    (case extract_instances W ops root b
                                            (In_temporary_file b stream_tmp_filename) dentries st4 of
                                       (ret3, st5) \<Rightarrow>
                                         (ret3, snd (perform W (Sys_unlink stream_tmp_filename)
                                                       (clear_tmp_flags dentries st5))))))))))"



text \<open>
  What C3 says of the operations of one call. An operation uses the source \<open>src\<close>
  when it is a backend operation on a stream that is given \<open>src\<close>, or a progress
  report; it touches a temporary file when it opens, fills, closes or unlinks one.
\<close>

fun uses_source :: "stream_source \<Rightarrow> event \<times> wimlib_error option \<Rightarrow> bool" where
  "uses_source src (Op_extract_unnamed_stream path s, r) = (s = src)"
| "uses_source src (Op_extract_encrypted_stream path s, r) = (s = src)"
| "uses_source src (Op_extract_named_stream path name s, r) = (s = src)"
| "uses_source src (Op_set_reparse_data path s, r) = (s = src)"
| "uses_source src (Op_create_symlink path s, r) = (s = src)"
| "uses_source src (Progress_extract_streams n, r) = True"
| "uses_source src (ev, r) = False"

definition writes_only :: "stream_source \<Rightarrow> apply_state \<Rightarrow> apply_state \<Rightarrow> bool" where
  "writes_only src st st' \<longleftrightarrow>
     (\<exists>ws. trace st' = trace st @ ws \<and> list_all (uses_source src) ws)"


section \<open>Extracting from a pipe\<close>













section \<open>The driver of one extraction\<close>

text \<open>
  \<^verbatim>\<open>extract_dentry_to_stdout\<close> (extract.c, 1347-1369). \<^verbatim>\<open>extract_wim_resource_to_fd\<close> on
  the descriptor of standard output is the operation \<open>Sys_write_resource_to_stdout\<close>
  on the blob; its outcome is the return value.
\<close>

definition extract_dentry_to_stdout ::
  "world \<Rightarrow> dentry_tree \<Rightarrow> apply_state \<Rightarrow> wimlib_error option \<times> apply_state" where
  "extract_dentry_to_stdout W t st =
    (let inode = inodes W (d_inode (dentry_of t)) in
     if i_attributes inode \<inter> {FILE_ATTRIBUTE_REPARSE_POINT, FILE_ATTRIBUTE_DIRECTORY} \<noteq> {}
     then (Some WIMLIB_ERR_NOT_A_REGULAR_FILE, print_message (ERROR Err_not_a_regular_file) st)
     else (case inode_unnamed_lte_resolved inode of
             None \<Rightarrow> (None, st)
           | Some b \<Rightarrow> perform W (Sys_write_resource_to_stdout b) st))"

text \<open>
  \<^verbatim>\<open>dentry_reset_needs_extraction\<close> (extract.c, 1574-1588), for the scratch fields
  that the state holds.
\<close>

definition dentry_reset_needs_extraction ::
  "world \<Rightarrow> dentry_tree \<Rightarrow> dentry_ptr \<Rightarrow> apply_state \<Rightarrow> wimlib_error option \<times> apply_state" where
  "dentry_reset_needs_extraction W t dentry st =
    (None, st\<lparr>extraction_skipped := (extraction_skipped st)(dentry := False),
              was_hardlinked := (was_hardlinked st)(dentry := False),
              i_visited := (i_visited st)(d_inode (dentry_of t) := False),
              extraction_name := (extraction_name st)(dentry := None)\<rparr>)"

text \<open>
  The labels at the end of \<^verbatim>\<open>extract_tree\<close> (extract.c, 2129-2147), each falling
  through to the next. At \<^verbatim>\<open>out_teardown_stream_list\<close> the heap arrays of a
  sequential extraction are freed; at \<^verbatim>\<open>out_finish_or_abort_extract\<close> the backend is
  told the outcome, when it has the callback, and the return value of
  \<^verbatim>\<open>finish_extract\<close> becomes that of the extraction.
\<close>

definition finish_or_abort_extract ::
  "world \<Rightarrow> apply_operations \<Rightarrow> wimlib_error option \<Rightarrow> apply_state
     \<Rightarrow> wimlib_error option \<times> apply_state" where
  "finish_or_abort_extract W ops ret st =
    (case ret of
       Some e \<Rightarrow> (if has_abort_extract ops then (Some e, snd (perform W Op_abort_extract st))
                  else (Some e, st))
     | None \<Rightarrow> (if has_finish_extract ops then perform W Op_finish_extract st else (None, st)))"

definition out_dentry_reset_needs_extraction ::
  "world \<Rightarrow> apply_operations \<Rightarrow> dentry_tree \<Rightarrow> wimlib_error option \<Rightarrow> apply_state
     \<Rightarrow> wimlib_error option \<times> apply_state" where
  "out_dentry_reset_needs_extraction W ops root ret st =
     finish_or_abort_extract W ops ret
       (snd (for_dentry_in_tree (dentry_reset_needs_extraction W) root [] st))"

definition free_lte_dentries :: "world \<Rightarrow> nat \<Rightarrow> apply_state \<Rightarrow> apply_state" where
  "free_lte_dentries W b st =
    (if inline_len W < out_refcnt (lookup_table st b)
     then set_lte b ((lookup_table st b)\<lparr>lte_dentries := []\<rparr>) st
     else st)"

definition out_teardown_stream_list ::
  "world \<Rightarrow> apply_operations \<Rightarrow> dentry_tree \<Rightarrow> wimlib_error option \<Rightarrow> apply_state
     \<Rightarrow> wimlib_error option \<times> apply_state" where
  "out_teardown_stream_list W ops root ret st =
     out_dentry_reset_needs_extraction W ops root ret
       (if WIMLIB_EXTRACT_FLAG_SEQUENTIAL \<in> ctx_extract_flags st
        then fold (free_lte_dentries W) (stream_list st) st
        else st)"

text \<open>
  The start of \<^verbatim>\<open>extract_tree\<close> (extract.c, 1882-1899): the context is cleared and
  the flags, the target and the progress function are stored; the scratch fields of
  the image, the lookup table, the messages and the trace are as they were.
\<close>

definition init_apply_ctx ::
  "extract_flag set \<Rightarrow> tchar list \<Rightarrow> bool \<Rightarrow> apply_state \<Rightarrow> apply_state" where
  "init_apply_ctx flags target progress_func st =
     st\<lparr>ctx_extract_flags := flags, supported_features := no_features,
        total_bytes := 0, num_streams := 0, completed_bytes := 0, next_progress := 0,
        has_progress_func := progress_func, stream_list := [], num_streams_remaining := 0,
        invalid_sequence := 0, ctx_target := target, ctx_realtarget := []\<rparr>"

text \<open>
  \<^verbatim>\<open>extract_tree\<close> (extract.c, 1871-2148). \<open>get_dentry\<close> is the result of the lookup of
  the source path in the image, \<open>ops\<close> the backend that was selected,
  \<open>image_total_bytes\<close> the value of \<^verbatim>\<open>wim_info_get_image_total_bytes\<close>. The part from
  the sorting of the stream list down to the label \<^verbatim>\<open>out_free_realtarget\<close> (extract.c,
  1993-2130), which creates the files, is the parameter \<open>extract_files\<close>; it gets
  the root, the required features and the state, and what it returns goes to the
  label \<^verbatim>\<open>out_teardown_stream_list\<close>. \<open>root_dentry_is_special\<close> is only read in that
  part.
\<close>

definition extract_tree ::
  "world \<Rightarrow> apply_operations \<Rightarrow> dentry_tree option \<Rightarrow> tchar list \<Rightarrow> extract_flag set \<Rightarrow> bool
     \<Rightarrow> 64 word
     \<Rightarrow> (dentry_tree \<Rightarrow> wim_features \<Rightarrow> apply_state \<Rightarrow> wimlib_error option \<times> apply_state)
     \<Rightarrow> apply_state \<Rightarrow> wimlib_error option \<times> apply_state" where
  "extract_tree W ops get_dentry target flags progress_func image_total_bytes
       extract_files st0 =
    (let st = init_apply_ctx flags target progress_func st0 in
     case get_dentry of
       None \<Rightarrow> (Some WIMLIB_ERR_PATH_DOES_NOT_EXIST,
                 print_message (ERROR Err_path_does_not_exist) st)
     | Some root \<Rightarrow>
        (case perform W Op_start_extract st of
           (Some e, st1) \<Rightarrow> (Some e, st1)
         | (None, st1) \<Rightarrow>
            let st2 = st1\<lparr>supported_features := volume_features ops\<rparr>;
                required_features = dentry_tree_get_features W root;
                check = do_feature_check required_features (supported_features st2)
                          flags ops;
                st3 = st2\<lparr>messages := messages st2 @ fst check\<rparr>
            in if snd check \<noteq> None then finish_or_abort_extract W ops (snd check) st3
               else
                (case calculate_extraction_paths W ops root st3 of
                   (Some e, st4) \<Rightarrow> out_dentry_reset_needs_extraction W ops root (Some e) st4
                 | (None, st4) \<Rightarrow>
                    (case for_dentry_in_tree (dentry_resolve_and_zero_lte_refcnt W) root [] st4 of
                       (Some e, st5) \<Rightarrow> out_dentry_reset_needs_extraction W ops root (Some e) st5
                     | (None, st5) \<Rightarrow>
                        (case plan_streams W root st5 of
                           (Some e, st6) \<Rightarrow> out_teardown_stream_list W ops root (Some e) st6
                         | (None, st6) \<Rightarrow>
                            let st7 = (if WIMLIB_EXTRACT_FLAG_FROM_PIPE \<in> flags
                                       then st6\<lparr>total_bytes := image_total_bytes\<rparr> else st6)
                            in if WIMLIB_EXTRACT_FLAG_TO_STDOUT \<in> flags
                               then (case extract_dentry_to_stdout W root st7 of
                                       (ret, st8) \<Rightarrow> out_teardown_stream_list W ops root ret st8)
                               else (case extract_files root required_features st7 of
                                       (ret, st8) \<Rightarrow>
                                         out_teardown_stream_list W ops root ret st8))))))"






section \<open>Small images for the concrete instances\<close>

text \<open>
  A lookup table entry as \<^verbatim>\<open>new_lookup_table_entry\<close> and the zeroing pass leave it: no
  references, no extracted file, empty arrays of \<open>n\<close> inline slots.
\<close>

definition fresh_lte :: "nat \<Rightarrow> 64 word \<Rightarrow> wim_lookup_table_entry" where
  "fresh_lte n sz =
    \<lparr>lte_hash = 0,
     resource_entry = \<lparr>original_size = sz, res_size = sz, res_offset = 0, res_flags = {}\<rparr>,
     resource_location = RESOURCE_IN_WIM, compression_type = 0, is_pipable = False,
     out_refcnt = 0, extracted_file = None,
     inline_lte_dentries = replicate n [], lte_dentries = [], alloc_lte_dentries = 0\<rparr>"

text \<open>
  The state after \<^verbatim>\<open>extract_tree\<close> has cleared the context with \<^verbatim>\<open>memset\<close> and stored
  the flags and the backend's features, over the lookup table \<open>lt\<close>; no dentry is
  skipped and no inode visited.
\<close>

definition start_state ::
  "extract_flag set \<Rightarrow> wim_features \<Rightarrow> (nat \<Rightarrow> wim_lookup_table_entry) \<Rightarrow> apply_state" where
  "start_state fl feats lt =
    \<lparr>ctx_extract_flags = fl, supported_features = feats,
     total_bytes = 0, num_streams = 0, completed_bytes = 0, next_progress = 0,
     has_progress_func = False, stream_list = [], num_streams_remaining = 0,
     invalid_sequence = 0, ctx_target = [], ctx_realtarget = [],
     extraction_skipped = (\<lambda>p. False), extraction_name = (\<lambda>p. None),
     was_hardlinked = (\<lambda>p. False), tmp_flag = (\<lambda>p. False),
     i_visited = (\<lambda>i. False), lookup_table = lt, n_allocs = 0,
     messages = [], trace = []\<rparr>"

text \<open>
  A world in which every operation and every allocation succeeds, on a POSIX build
  whose host encoding has the code units of the UTF-16 string, with four inline
  slots per lookup table entry, over the inode table \<open>ino\<close>.
\<close>

definition quiet_world :: "(nat \<Rightarrow> wim_inode) \<Rightarrow> world" where
  "quiet_world ino =
    \<lparr>op_result = (\<lambda>h ev. None), tempnam_result = (\<lambda>h. Some [length h]),
     alloc_ok = (\<lambda>n. True), inodes = ino, lookup_resource = (\<lambda>h. None),
     utf16le_to_tstr = (\<lambda>s. Inr (map unat s)), resolve_ltes_result = (\<lambda>i. None),
     win32 = False, inline_len = 4\<rparr>"

text \<open>A regular file whose unnamed stream is blob \<open>b\<close>, with \<open>n\<close> links.\<close>

definition file_inode :: "nat \<Rightarrow> nat \<Rightarrow> wim_inode" where
  "file_inode b n =
    \<lparr>i_attributes = {}, i_lte = Some b, i_ads_entries = [], i_nlink = n,
     i_security_id = - 1, i_is_symlink = False, i_has_unix_data = False\<rparr>"

definition dir_inode :: wim_inode where
  "dir_inode =
    \<lparr>i_attributes = {FILE_ATTRIBUTE_DIRECTORY}, i_lte = None, i_ads_entries = [], i_nlink = 1,
     i_security_id = - 1, i_is_symlink = False, i_has_unix_data = False\<rparr>"

definition named :: "utf16lechar list \<Rightarrow> nat \<Rightarrow> wim_dentry" where
  "named nm ino = \<lparr>file_name = nm, short_name_nbytes = 0, d_inode = ino,
     case_insensitive_conflict_list = []\<rparr>"

text \<open>
  A directory (inode 0) with the two entries \<^verbatim>\<open>x\<close> and \<^verbatim>\<open>y\<close>, hard links of inode 1,
  a file whose contents are blob 0.
\<close>

definition hardlink_image :: dentry_tree where
  "hardlink_image = Dentry (named [] 0) [Dentry (named [0x78] 1) [], Dentry (named [0x79] 1) []]"

definition hardlink_inodes :: "nat \<Rightarrow> wim_inode" where
  "hardlink_inodes i = (if i = 0 then dir_inode else file_inode 0 2)"

definition unix_features :: wim_features where
  "unix_features = no_features\<lparr>hard_links := 1, symlink_reparse_points := 1\<rparr>"

text \<open>The POSIX backend: paths below the target, case-sensitive names, no callbacks missing but the two optional ones.\<close>

definition posix_ops :: apply_operations where
  "posix_ops =
    \<lparr>path_max = 4096, path_prefix = [], path_separator = 0x2F,
     requires_target_in_paths = True, requires_realtarget_in_paths = False,
     supports_case_sensitive_filenames = True, has_set_timestamps = True,
     has_finish_extract = False, has_abort_extract = False,
     volume_features = unix_features\<rparr>"

text \<open>
  A directory \<^verbatim>\<open>a/b\<close> (the name holds a slash) with one file \<^verbatim>\<open>c\<close> in it, as the
  subtree at position \<open>[0]\<close>; and an entry of the same name that is a reparse point
  but neither a symbolic link nor a junction.
\<close>

definition slash_dir :: dentry_tree where
  "slash_dir = Dentry (named [0x61, 0x2F, 0x62] 1) [Dentry (named [0x63] 2) []]"

definition slash_inodes :: "nat \<Rightarrow> wim_inode" where
  "slash_inodes i = (if i = 2 then file_inode 0 1 else dir_inode)"

definition slash_reparse_point :: dentry_tree where
  "slash_reparse_point = Dentry (named [0x61, 0x2F, 0x62] 1) []"

definition reparse_inodes :: "nat \<Rightarrow> wim_inode" where
  "reparse_inodes i =
    (if i = 1
     then \<lparr>i_attributes = {FILE_ATTRIBUTE_REPARSE_POINT}, i_lte = Some 0, i_ads_entries = [],
           i_nlink = 1, i_security_id = - 1, i_is_symlink = False, i_has_unix_data = False\<rparr>
     else dir_inode)"

text \<open>
  Three files \<^verbatim>\<open>a\<close>, \<^verbatim>\<open>b\<close> and \<^verbatim>\<open>c\<close> with the same contents, blob 0, each with an
  inode of its own; and the state after the names are computed and the streams
  planned for a sequential extraction.
\<close>

definition three_files_image :: dentry_tree where
  "three_files_image =
     Dentry (named [] 0)
       [Dentry (named [0x61] 1) [], Dentry (named [0x62] 2) [], Dentry (named [0x63] 3) []]"

definition three_files_inodes :: "nat \<Rightarrow> wim_inode" where
  "three_files_inodes i = (if i = 0 then dir_inode else file_inode 0 1)"

definition three_files_planned :: apply_state where
  "three_files_planned =
     snd (plan_streams (quiet_world three_files_inodes) three_files_image
       (snd (calculate_extraction_paths (quiet_world three_files_inodes) posix_ops three_files_image
          (start_state {WIMLIB_EXTRACT_FLAG_SEQUENTIAL} unix_features (\<lambda>b. fresh_lte 4 5)))))"





text \<open>
  A backend that has neither hard links nor symbolic links, with both callbacks;
  a single file whose contents are blob 0, a single directory, and the part after
  planning replaced by one that does nothing.
\<close>

definition plain_ops :: apply_operations where
  "plain_ops = posix_ops\<lparr>has_finish_extract := True, has_abort_extract := True,
     volume_features := no_features\<rparr>"

definition one_file :: dentry_tree where
  "one_file = Dentry (named [0x66] 1) []"


definition no_files ::
  "dentry_tree \<Rightarrow> wim_features \<Rightarrow> apply_state \<Rightarrow> wimlib_error option \<times> apply_state" where
  "no_files root required st = (None, st)"


section \<open>Properties of command validation\<close>




text \<open>
  C7. Without \<^verbatim>\<open>RPFIX\<close> and \<^verbatim>\<open>NORPFIX\<close>, the code turns reparse-point fixups on
  whenever the header flag \<^verbatim>\<open>WIM_HDR_FLAG_RP_FIX\<close> is set. The comment in the source
  says "and we are extracting a full image", but the source path of the command is
  never read: a command that extracts the subtree \<^verbatim>\<open>dir\<close> gets \<^verbatim>\<open>RPFIX\<close> as well.
\<close>

theorem C7_rpfix_default_ignores_source_path:
  "check_extract_command True
     \<lparr>wim_source_path = ''dir'', fs_dest_path = ''out'', extract_flags = {}\<rparr>
     {WIM_HDR_FLAG_RP_FIX}
   = ([], Inr \<lparr>wim_source_path = ''dir'', fs_dest_path = ''out'',
               extract_flags = {WIMLIB_EXTRACT_FLAG_RPFIX}\<rparr>)"
  by (simp add: check_extract_command_def)

lemma rpfix_default_iff_header_flag:
  "check_extract_command n cmd hdr = (log, Inr cmd') \<Longrightarrow>
   extract_flags cmd \<inter> {WIMLIB_EXTRACT_FLAG_RPFIX, WIMLIB_EXTRACT_FLAG_NORPFIX} = {} \<Longrightarrow>
   WIMLIB_EXTRACT_FLAG_RPFIX \<in> extract_flags cmd' \<longleftrightarrow> WIM_HDR_FLAG_RP_FIX \<in> hdr"
  by (auto simp: check_extract_command_def Let_def split: if_splits)

text \<open>
  C10. Whenever validation accepts a command that has both \<^verbatim>\<open>UNIX_DATA\<close> and
  \<^verbatim>\<open>SEQUENTIAL\<close>: without \<^verbatim>\<open>FROM_PIPE\<close> the flags written back no longer hold
  \<^verbatim>\<open>SEQUENTIAL\<close>, the only message is the warning "Disabling sequential extraction
  for UNIX data mode", and \<^verbatim>\<open>extract_tree\<close> then takes the single-pass branch; with
  \<^verbatim>\<open>FROM_PIPE\<close>, \<^verbatim>\<open>SEQUENTIAL\<close> stays set and only a warning is printed.
\<close>

theorem C10_unix_data_disables_sequential:
  assumes "check_extract_command n cmd hdr = (log, Inr cmd')"
    and "WIMLIB_EXTRACT_FLAG_UNIX_DATA \<in> extract_flags cmd"
    and "WIMLIB_EXTRACT_FLAG_SEQUENTIAL \<in> extract_flags cmd"
  shows "(WIMLIB_EXTRACT_FLAG_FROM_PIPE \<notin> extract_flags cmd \<longrightarrow>
            WIMLIB_EXTRACT_FLAG_SEQUENTIAL \<notin> extract_flags cmd' \<and>
            log = [WARNING Warn_disabling_sequential] \<and>
            extraction_strategy (extract_flags cmd') = Single_pass)
       \<and> (WIMLIB_EXTRACT_FLAG_FROM_PIPE \<in> extract_flags cmd \<longrightarrow>
            WIMLIB_EXTRACT_FLAG_SEQUENTIAL \<in> extract_flags cmd' \<and>
            log = [WARNING Warn_unix_data_from_pipe] \<and>
            extraction_strategy (extract_flags cmd') = Two_pass_from_pipe)"
  using assms
  by (auto simp: check_extract_command_def Let_def extraction_strategy_def split: if_splits)

theorem C10_unix_data_disables_sequential_witness:
  "check_extract_command False
     \<lparr>wim_source_path = [], fs_dest_path = ''out'',
      extract_flags = {WIMLIB_EXTRACT_FLAG_UNIX_DATA, WIMLIB_EXTRACT_FLAG_SEQUENTIAL}\<rparr> {}
   = ([WARNING Warn_disabling_sequential],
      Inr \<lparr>wim_source_path = [], fs_dest_path = ''out'',
           extract_flags = {WIMLIB_EXTRACT_FLAG_UNIX_DATA}\<rparr>)
   \<and> WIMLIB_EXTRACT_FLAG_SEQUENTIAL \<notin> {WIMLIB_EXTRACT_FLAG_UNIX_DATA}
   \<and> extraction_strategy {WIMLIB_EXTRACT_FLAG_UNIX_DATA} = Single_pass"
proof -
  let ?cmd = "\<lparr>wim_source_path = [], fs_dest_path = ''out'',
      extract_flags = {WIMLIB_EXTRACT_FLAG_UNIX_DATA, WIMLIB_EXTRACT_FLAG_SEQUENTIAL}\<rparr>"
  let ?cmd' = "\<lparr>wim_source_path = [], fs_dest_path = ''out'',
      extract_flags = {WIMLIB_EXTRACT_FLAG_UNIX_DATA}\<rparr>"
  have h: "check_extract_command False ?cmd {} = ([WARNING Warn_disabling_sequential], Inr ?cmd')"
    by (auto simp: check_extract_command_def)
  from C10_unix_data_disables_sequential [OF h] h show ?thesis by simp
qed




section \<open>Properties of planning\<close>

text \<open>The traversal visits the dentries in the order of \<open>dentries_preorder\<close>.\<close>

lemma for_each_dentry_append:
  "for_each_dentry v (xs @ ys) st =
    (case for_each_dentry v xs st of
       (Some e, st') \<Rightarrow> (Some e, st')
     | (None, st') \<Rightarrow> for_each_dentry v ys st')"
  by (induction xs arbitrary: st) (auto split: prod.splits option.splits)

lemma for_dentry_in_tree_preorder:
  "for_dentry_in_tree v t p st = for_each_dentry v (dentries_preorder t p) st"
  "for_dentry_children v cs p i st = for_each_dentry v (children_preorder cs p i) st"
  by (induction v t p st and v cs p i st rule: for_dentry_in_tree_for_dentry_children.induct)
     (auto simp: for_each_dentry_append split: prod.splits option.splits)

lemma append_lte_dentry_frame:
  "append_lte_dentry W l d st = (Some l', st') \<Longrightarrow>
     out_refcnt l' = out_refcnt l \<and> plan_frame st st' \<and> i_visited st' = i_visited st \<and>
     lookup_table st' = lookup_table st"
  by (auto simp: append_lte_dentry_def allocate_def plan_frame_def Let_def
      split: if_splits prod.splits bool.splits option.splits)

lemma ref_stream_success:
  assumes "ref_stream_to_extract W x d st = (None, st')"
  shows "out_refcnt (lookup_table st' b') =
           out_refcnt (lookup_table st b') + count_list (case x of None \<Rightarrow> [] | Some b \<Rightarrow> [b]) b'"
    and "plan_frame st st'" and "i_visited st' = i_visited st"
  using assms
  by (auto simp: ref_stream_to_extract_def Let_def set_lte_def plan_frame_def
      split: option.splits if_splits prod.splits dest!: append_lte_dentry_frame)


lemma ref_named_streams_success:
  "ref_named_streams W es d st = (None, st') \<Longrightarrow>
     (\<forall>b'. out_refcnt (lookup_table st' b') = out_refcnt (lookup_table st b') +
        count_list (concat (map (\<lambda>entry. case lte entry of None \<Rightarrow> [] | Some b \<Rightarrow> [b])
               (filter ads_entry_is_named_stream es))) b') \<and>
     plan_frame st st' \<and> i_visited st' = i_visited st"
proof (induction es arbitrary: st)
  case Nil
  then show ?case by (simp add: plan_frame_def)
next
  case (Cons e es)
  show ?case
  proof (cases "ads_entry_is_named_stream e")
    case False
    with Cons show ?thesis by simp
  next
    case True
    with Cons.prems obtain st1 where
      1: "ref_stream_to_extract W (lte e) d st = (None, st1)" and
      2: "ref_named_streams W es d st1 = (None, st')"
      by (auto split: prod.splits option.splits)
    from Cons.IH [OF 2] ref_stream_success [OF 1] True
    show ?thesis by (auto simp: plan_frame_def split: option.splits)
  qed
qed

lemma can_extract_named_frame:
  "plan_frame st st' \<Longrightarrow> can_extract_named_data_streams st' = can_extract_named_data_streams st"
  by (simp add: plan_frame_def can_extract_named_data_streams_def is_linked_extraction_def)

lemma planned_stream_ltes_frame:
  "plan_frame st st' \<Longrightarrow> planned_stream_ltes st' inode = planned_stream_ltes st inode"
  by (simp add: planned_stream_ltes_def can_extract_named_frame)

lemma dentry_add_streams_success:
  assumes "dentry_add_streams_to_extract W t p st = (None, st')"
  shows "plan_frame st st'"
    and "extraction_skipped st p \<or>
         (i_visited st (d_inode (dentry_of t)) \<and> hard_links (supported_features st) \<noteq> 0) \<Longrightarrow> st' = st"
    and "\<not> extraction_skipped st p \<Longrightarrow>
         \<not> (i_visited st (d_inode (dentry_of t)) \<and> hard_links (supported_features st) \<noteq> 0) \<Longrightarrow>
         out_refcnt (lookup_table st' b) = out_refcnt (lookup_table st b) +
           count_list (planned_stream_ltes st (inodes W (d_inode (dentry_of t)))) b \<and>
         i_visited st' = (i_visited st)(d_inode (dentry_of t) := True)"
proof -
  let ?ino = "d_inode (dentry_of t)"
  let ?inode = "inodes W ?ino"
  show "extraction_skipped st p \<or> (i_visited st ?ino \<and> hard_links (supported_features st) \<noteq> 0) \<Longrightarrow> st' = st"
    using assms by (auto simp: dentry_add_streams_to_extract_def Let_def split: if_splits)
  have skip: "plan_frame st st'"
    if "extraction_skipped st p \<or> (i_visited st ?ino \<and> hard_links (supported_features st) \<noteq> 0)"
    using that assms by (auto simp: dentry_add_streams_to_extract_def Let_def plan_frame_def split: if_splits)
  have main: "plan_frame st st' \<and>
         out_refcnt (lookup_table st' b) = out_refcnt (lookup_table st b) +
           count_list (planned_stream_ltes st ?inode) b \<and>
         i_visited st' = (i_visited st)(?ino := True)"
    if n: "\<not> extraction_skipped st p"
      "\<not> (i_visited st ?ino \<and> hard_links (supported_features st) \<noteq> 0)" for b
  proof -
    from assms n obtain st1 st2 where
      1: "(if \<not> inode_is_encrypted_directory ?inode
              then ref_stream_to_extract W (inode_unnamed_lte_resolved ?inode) p st
              else (None, st)) = (None, st1)" and
      2: "(if can_extract_named_data_streams st1
                  then ref_named_streams W (i_ads_entries ?inode) p st1
                  else (None, st1)) = (None, st2)" and
      3: "st' = st2\<lparr>i_visited := (i_visited st2)(?ino := True)\<rparr>"
      by (auto simp: dentry_add_streams_to_extract_def Let_def split: prod.splits option.splits if_splits)
    have a: "out_refcnt (lookup_table st1 b) = out_refcnt (lookup_table st b) +
           count_list (if inode_is_encrypted_directory ?inode then []
              else (case i_lte ?inode of None \<Rightarrow> [] | Some b \<Rightarrow> [b])) b
          \<and> plan_frame st st1 \<and> i_visited st1 = i_visited st"
    proof (cases "inode_is_encrypted_directory ?inode")
      case True
      with 1 show ?thesis by (simp add: plan_frame_def)
    next
      case False
      with 1 have "ref_stream_to_extract W (inode_unnamed_lte_resolved ?inode) p st = (None, st1)"
        by simp
      from ref_stream_success [OF this] False show ?thesis
        by (simp add: inode_unnamed_lte_resolved_def)
    qed
    have c: "can_extract_named_data_streams st1 = can_extract_named_data_streams st"
      using a can_extract_named_frame by blast
    have b: "out_refcnt (lookup_table st2 b) = out_refcnt (lookup_table st1 b) +
           count_list (if can_extract_named_data_streams st
      then concat (map (\<lambda>entry. case lte entry of None \<Rightarrow> [] | Some b \<Rightarrow> [b])
                     (filter ads_entry_is_named_stream (i_ads_entries ?inode)))
      else []) b \<and> plan_frame st1 st2 \<and> i_visited st2 = i_visited st1"
    proof (cases "can_extract_named_data_streams st1")
      case True
      with 2 have "ref_named_streams W (i_ads_entries ?inode) p st1 = (None, st2)" by simp
      from ref_named_streams_success [OF this] True c show ?thesis
        by simp
    next
      case False
      with 2 c show ?thesis by (auto simp: plan_frame_def)
    qed
    from a b 3 show ?thesis
      by (auto simp: planned_stream_ltes_def plan_frame_def)
  qed
  from skip main show "plan_frame st st'" by blast
  from main show "\<not> extraction_skipped st p \<Longrightarrow>
         \<not> (i_visited st ?ino \<and> hard_links (supported_features st) \<noteq> 0) \<Longrightarrow>
         out_refcnt (lookup_table st' b) = out_refcnt (lookup_table st b) +
           count_list (planned_stream_ltes st ?inode) b \<and>
         i_visited st' = (i_visited st)(?ino := True)" by blast
qed


lemma planned_references_frame:
  assumes "plan_frame st st'"
  shows "planned_references W st' seen ds b = planned_references W st seen ds b"
proof -
  from assms have 1: "extraction_skipped st' = extraction_skipped st"
    and 2: "supported_features st' = supported_features st"
    by (simp_all add: plan_frame_def)
  have 3: "planned_stream_ltes st' = planned_stream_ltes st"
    using planned_stream_ltes_frame [OF assms] by (intro ext)
  show ?thesis
    unfolding planned_references_def planned_dentries_def 1 2 3 ..
qed

lemma planned_references_no_hard_links:
  "hard_links (supported_features st) = 0 \<Longrightarrow>
     planned_references W st seen ds b = planned_references W st seen' ds b"
  by (simp add: planned_references_def planned_dentries_def)

lemma planned_references_Cons:
  "planned_references W st seen ((t, p) # ds) b =
    (if extraction_skipped st p then planned_references W st seen ds b
     else if hard_links (supported_features st) \<noteq> 0 \<and> d_inode (dentry_of t) \<in> seen
       then planned_references W st seen ds b
     else count_list (planned_stream_ltes st (inodes W (d_inode (dentry_of t)))) b +
          planned_references W st (insert (d_inode (dentry_of t)) seen) ds b)"
  by (auto simp: planned_references_def planned_dentries_def Let_def)

lemma for_each_planning:
  "for_each_dentry (dentry_add_streams_to_extract W) ds st = (None, st') \<Longrightarrow>
     out_refcnt (lookup_table st' b) =
       out_refcnt (lookup_table st b) + planned_references W st {i. i_visited st i} ds b"
proof (induction ds arbitrary: st)
  case Nil
  then show ?case by (simp add: planned_references_def planned_dentries_def)
next
  case (Cons x ds)
  obtain t p where x: "x = (t, p)" by (cases x)
  let ?ino = "d_inode (dentry_of t)"
  from Cons.prems x obtain st1 where
    1: "dentry_add_streams_to_extract W t p st = (None, st1)" and
    2: "for_each_dentry (dentry_add_streams_to_extract W) ds st1 = (None, st')"
    by (auto split: prod.splits option.splits)
  note fr = dentry_add_streams_success(1) [OF 1]
  from Cons.IH [OF 2] planned_references_frame [OF fr]
  have ih: "out_refcnt (lookup_table st' b) =
       out_refcnt (lookup_table st1 b) + planned_references W st {i. i_visited st1 i} ds b"
    by simp
  show ?case
  proof (cases "extraction_skipped st p \<or>
         (i_visited st ?ino \<and> hard_links (supported_features st) \<noteq> 0)")
    case True
    from dentry_add_streams_success(2) [OF 1 True] have "st1 = st" .
    with ih True x show ?thesis by (auto simp: planned_references_Cons)
  next
    case False
    then have n: "\<not> extraction_skipped st p"
      "\<not> (i_visited st ?ino \<and> hard_links (supported_features st) \<noteq> 0)" by auto
    from dentry_add_streams_success(3) [OF 1 n, of b]
    have a: "out_refcnt (lookup_table st1 b) = out_refcnt (lookup_table st b) +
           count_list (planned_stream_ltes st (inodes W ?ino)) b"
      and v: "i_visited st1 = (i_visited st)(?ino := True)" by auto
    from v have s: "{i. i_visited st1 i} = insert ?ino {i. i_visited st i}" by auto
    show ?thesis
    proof (cases "hard_links (supported_features st) = 0")
      case True
      from planned_references_no_hard_links [OF True]
      have "planned_references W st {i. i_visited st1 i} ds b =
            planned_references W st (insert ?ino {i. i_visited st i}) ds b" .
      with ih a n True x show ?thesis by (simp add: planned_references_Cons)
    next
      case False
      with ih a n s x show ?thesis by (simp add: planned_references_Cons)
    qed
  qed
qed

lemma for_each_planning_counts:
  assumes "\<forall>b. out_refcnt (lookup_table st b) = 0"
    and "\<forall>i. \<not> i_visited st i"
    and "plan_streams W root st = (None, st')"
  shows "out_refcnt (lookup_table st' b) =
            planned_references W st {} (dentries_preorder root []) b"
proof -
  from assms(3) have "for_each_dentry (dentry_add_streams_to_extract W) (dentries_preorder root []) st = (None, st')"
    by (simp add: plan_streams_def for_dentry_in_tree_preorder)
  from for_each_planning [OF this, of b] assms(1,2)
  show ?thesis by simp
qed

text \<open>
  Where the two counts agree: every dentry that is not skipped is planned when no
  two of them share an inode, and every stream of an inode is planned when named
  data streams can be extracted and the inode is not an encrypted directory.
\<close>

lemma first_links_distinct:
  "distinct (map (\<lambda>(t, p). d_inode (dentry_of t)) ds) \<Longrightarrow>
   (\<forall>(t, p) \<in> set ds. d_inode (dentry_of t) \<notin> seen) \<Longrightarrow> first_links seen ds = ds"
proof (induction ds arbitrary: seen)
  case Nil
  then show ?case by simp
next
  case (Cons x ds)
  obtain t p where x: "x = (t, p)" by (cases x)
  from Cons.prems x have d: "distinct (map (\<lambda>(t, p). d_inode (dentry_of t)) ds)"
    and n: "d_inode (dentry_of t) \<notin> seen"
    and m: "\<forall>(t', p') \<in> set ds. d_inode (dentry_of t') \<noteq> d_inode (dentry_of t)"
    and s: "\<forall>(t, p) \<in> set ds. d_inode (dentry_of t) \<notin> seen"
    by (auto simp: image_iff)
  from m s have "\<forall>(t', p') \<in> set ds. d_inode (dentry_of t') \<notin> insert (d_inode (dentry_of t)) seen"
    by auto
  from Cons.IH [OF d this] n x show ?case by simp
qed

lemma planned_stream_ltes_all:
  "can_extract_named_data_streams st \<Longrightarrow> \<not> inode_is_encrypted_directory inode \<Longrightarrow>
     planned_stream_ltes st inode = inode_stream_ltes inode"
  by (simp add: planned_stream_ltes_def inode_stream_ltes_def)

lemma planned_references_eq_stream_references:
  assumes "can_extract_named_data_streams st"
    and "\<forall>(t, p) \<in> set (dentries_preorder root []).
           \<not> inode_is_encrypted_directory (inodes W (d_inode (dentry_of t)))"
    and "hard_links (supported_features st) = 0 \<or>
         distinct (map (\<lambda>(t, p). d_inode (dentry_of t))
           (filter (\<lambda>(t, p). \<not> extraction_skipped st p) (dentries_preorder root [])))"
  shows "planned_references W st {} (dentries_preorder root []) b = stream_references W root st b"
proof -
  let ?live = "filter (\<lambda>(t, p). \<not> extraction_skipped st p) (dentries_preorder root [])"
  have 1: "planned_dentries st {} (dentries_preorder root []) = ?live"
    using assms(3) first_links_distinct [of ?live "{}"]
    by (auto simp: planned_dentries_def Let_def)
  have 2: "map (\<lambda>(t, p). count_list (planned_stream_ltes st (inodes W (d_inode (dentry_of t)))) b) ?live
         = map (\<lambda>(t, p). count_list (inode_stream_ltes (inodes W (d_inode (dentry_of t)))) b) ?live"
    using assms(1,2) by (auto simp: planned_stream_ltes_all)
  show ?thesis
    unfolding planned_references_def stream_references_def 1 2 ..
qed

text \<open>The hard link image: planning succeeds, blob 0 ends with one reference.\<close>

lemma hardlink_plan_succeeds:
  "fst (plan_streams (quiet_world hardlink_inodes) hardlink_image
          (start_state {} unix_features (\<lambda>b. fresh_lte 4 5))) = None"
  by code_simp

lemma hardlink_plan_out_refcnt:
  "out_refcnt (lookup_table (snd (plan_streams (quiet_world hardlink_inodes) hardlink_image
          (start_state {} unix_features (\<lambda>b. fresh_lte 4 5)))) 0) = 1"
  by code_simp

lemma hardlink_stream_references:
  "stream_references (quiet_world hardlink_inodes) hardlink_image
     (snd (plan_streams (quiet_world hardlink_inodes) hardlink_image
          (start_state {} unix_features (\<lambda>b. fresh_lte 4 5)))) 0 = 2"
  by code_simp

text \<open>
  C1, as stated, fails where the backend supports hard links: in the image with
  the two hard links \<^verbatim>\<open>x\<close> and \<^verbatim>\<open>y\<close> of one file, both dentries reference blob 0
  through the unnamed stream and neither is skipped, yet planning succeeds and
  leaves \<open>out_refcnt = 1\<close>.
\<close>

theorem C1_hard_links_counted_once:
  "hard_links (supported_features (start_state {} unix_features (\<lambda>b. fresh_lte 4 5))) \<noteq> 0
   \<and> fst (plan_streams (quiet_world hardlink_inodes) hardlink_image
          (start_state {} unix_features (\<lambda>b. fresh_lte 4 5))) = None
   \<and> out_refcnt (lookup_table (snd (plan_streams (quiet_world hardlink_inodes) hardlink_image
          (start_state {} unix_features (\<lambda>b. fresh_lte 4 5)))) 0) = 1
   \<and> stream_references (quiet_world hardlink_inodes) hardlink_image
        (snd (plan_streams (quiet_world hardlink_inodes) hardlink_image
          (start_state {} unix_features (\<lambda>b. fresh_lte 4 5)))) 0 = 2"
  using hardlink_plan_succeeds hardlink_plan_out_refcnt hardlink_stream_references
  by (simp add: start_state_def unix_features_def)

text \<open>
  C1, amended. After a planning pass that succeeds from a state in which every
  \<open>out_refcnt\<close> is 0 and no inode is marked visited, the \<open>out_refcnt\<close> of every blob
  is the number of pairs of a planned dentry and a planned stream of its inode
  whose blob it is: \<open>planned_references\<close>.
\<close>

theorem C1_out_refcnt_counts_planned_references:
  assumes "\<forall>b. out_refcnt (lookup_table st b) = 0"
    and "\<forall>i. \<not> i_visited st i"
    and "plan_streams W root st = (None, st')"
  shows "\<forall>b. out_refcnt (lookup_table st' b) =
            planned_references W st {} (dentries_preorder root []) b"
  using for_each_planning_counts [OF assms] by blast

theorem C1_out_refcnt_counts_planned_references_witness:
  "out_refcnt (lookup_table (snd (plan_streams (quiet_world hardlink_inodes) hardlink_image
          (start_state {} unix_features (\<lambda>b. fresh_lte 4 5)))) 0)
   = planned_references (quiet_world hardlink_inodes)
       (start_state {} unix_features (\<lambda>b. fresh_lte 4 5)) {} (dentries_preorder hardlink_image []) 0
   \<and> planned_references (quiet_world hardlink_inodes)
       (start_state {} unix_features (\<lambda>b. fresh_lte 4 5)) {} (dentries_preorder hardlink_image []) 0 = 1"
proof -
  let ?W = "quiet_world hardlink_inodes"
  let ?st = "start_state {} unix_features (\<lambda>b. fresh_lte 4 5)"
  have h1: "\<forall>b. out_refcnt (lookup_table ?st b) = 0"
    by (simp add: start_state_def fresh_lte_def)
  have h2: "\<forall>i. \<not> i_visited ?st i"
    by (simp add: start_state_def)
  have h3: "plan_streams ?W hardlink_image ?st = (None, snd (plan_streams ?W hardlink_image ?st))"
    using hardlink_plan_succeeds by (simp add: prod_eq_iff)
  from C1_out_refcnt_counts_planned_references [OF h1 h2 h3]
  have "out_refcnt (lookup_table (snd (plan_streams ?W hardlink_image ?st)) 0)
        = planned_references ?W ?st {} (dentries_preorder hardlink_image []) 0"
    by blast
  with hardlink_plan_out_refcnt show ?thesis by simp
qed

text \<open>
  C2, as stated, fails for the progress total: outside linked extraction the size
  of the blob is added on every reference. Two references to blob 0, of 5 bytes:
  the second finds \<open>out_refcnt = 1\<close>, leaves the list and the counter alone and
  still raises \<open>total_bytes\<close> from 5 to 10.
\<close>

theorem C2_total_bytes_grows_on_every_reference:
  "out_refcnt (lookup_table (snd (ref_stream_to_extract (quiet_world hardlink_inodes) (Some 0) [0]
        (start_state {} unix_features (\<lambda>b. fresh_lte 4 5)))) 0) = 1
   \<and> total_bytes (snd (ref_stream_to_extract (quiet_world hardlink_inodes) (Some 0) [0]
        (start_state {} unix_features (\<lambda>b. fresh_lte 4 5)))) = 5
   \<and> total_bytes (snd (ref_stream_to_extract (quiet_world hardlink_inodes) (Some 0) [1]
        (snd (ref_stream_to_extract (quiet_world hardlink_inodes) (Some 0) [0]
        (start_state {} unix_features (\<lambda>b. fresh_lte 4 5)))))) = 10
   \<and> stream_list (snd (ref_stream_to_extract (quiet_world hardlink_inodes) (Some 0) [1]
        (snd (ref_stream_to_extract (quiet_world hardlink_inodes) (Some 0) [0]
        (start_state {} unix_features (\<lambda>b. fresh_lte 4 5)))))) = [0]"
  by code_simp

lemma ref_stream_fields:
  "ref_stream_to_extract W (Some b) dentry st = (r, st') \<Longrightarrow>
     stream_list st' = (if out_refcnt (lookup_table st b) = 0 then stream_list st @ [b] else stream_list st) \<and>
     num_streams_remaining st' = (if out_refcnt (lookup_table st b) = 0
        then Suc (num_streams_remaining st) else num_streams_remaining st) \<and>
     total_bytes st' = (if \<not> is_linked_extraction st \<or>
           (out_refcnt (lookup_table st b) = 0 \<and> extracted_file (lookup_table st b) = None)
        then total_bytes st + wim_resource_size (lookup_table st b) else total_bytes st)"
  by (auto simp: ref_stream_to_extract_def Let_def set_lte_def append_lte_dentry_def allocate_def is_linked_extraction_def
      split: if_splits option.splits prod.splits bool.splits)

text \<open>
  C2, amended. A reference to blob \<open>b\<close> appends it to the extraction list and
  increments \<open>num_streams_remaining\<close> exactly when its \<open>out_refcnt\<close> is 0. It adds the
  size of the blob to \<open>total_bytes\<close> on every reference when the extraction is not
  linked, and in a linked extraction only when \<open>out_refcnt\<close> is 0 and the blob has no
  extracted file yet. This holds also when the call fails for lack of memory.
\<close>

theorem C2_reference_updates:
  assumes "ref_stream_to_extract W (Some b) dentry st = (r, st')"
  shows "stream_list st' =
           (if out_refcnt (lookup_table st b) = 0 then stream_list st @ [b] else stream_list st)
       \<and> num_streams_remaining st' =
           (if out_refcnt (lookup_table st b) = 0 then Suc (num_streams_remaining st)
            else num_streams_remaining st)
       \<and> total_bytes st' =
           (if \<not> is_linked_extraction st \<or>
               (out_refcnt (lookup_table st b) = 0 \<and> extracted_file (lookup_table st b) = None)
            then total_bytes st + wim_resource_size (lookup_table st b) else total_bytes st)"
  using ref_stream_fields [OF assms] .

theorem C2_reference_updates_witness:
  "stream_list (snd (ref_stream_to_extract (quiet_world hardlink_inodes) (Some 0) [0]
        (start_state {} unix_features (\<lambda>b. fresh_lte 4 5)))) = [0]
   \<and> num_streams_remaining (snd (ref_stream_to_extract (quiet_world hardlink_inodes) (Some 0) [0]
        (start_state {} unix_features (\<lambda>b. fresh_lte 4 5)))) = 1
   \<and> total_bytes (snd (ref_stream_to_extract (quiet_world hardlink_inodes) (Some 0) [0]
        (start_state {} unix_features (\<lambda>b. fresh_lte 4 5)))) = 5"
proof -
  let ?W = "quiet_world hardlink_inodes"
  let ?st = "start_state {} unix_features (\<lambda>b. fresh_lte 4 5)"
  have h: "ref_stream_to_extract ?W (Some 0) [0] ?st =
             (fst (ref_stream_to_extract ?W (Some 0) [0] ?st),
              snd (ref_stream_to_extract ?W (Some 0) [0] ?st))"
    by simp
  have z: "out_refcnt (lookup_table ?st 0) = 0" "\<not> is_linked_extraction ?st"
    "stream_list ?st = []" "num_streams_remaining ?st = 0" "total_bytes ?st = 0"
    "wim_resource_size (lookup_table ?st 0) = 5"
    by (simp_all add: start_state_def fresh_lte_def is_linked_extraction_def wim_resource_size_def)
  from C2_reference_updates [OF h] z show ?thesis by simp
qed


section \<open>Properties of the extraction names\<close>

lemma file_name_valid_chars_nofix:
  "file_name_valid_chars w32 False name = (if list_ex (forbidden_char w32) name then None else Some name)"
  by (induction name) auto

lemma file_name_valid_chars_fix:
  "file_name_valid_chars w32 True name =
     Some (map (\<lambda>c. if forbidden_char w32 c then replacement_char w32 else c) name)"
  by (induction name) auto

lemma file_name_valid_iff:
  "fst (file_name_valid w32 name False) \<longleftrightarrow> \<not> has_invalid_char w32 name"
  by (auto simp: file_name_valid_def has_invalid_char_def file_name_valid_chars_nofix split: option.splits)

lemma last_map_fix:
  "name \<noteq> [] \<Longrightarrow>
   (last (map (\<lambda>c. if forbidden_char w32 c then replacement_char w32 else c) name) = 0x20 \<or>
    last (map (\<lambda>c. if forbidden_char w32 c then replacement_char w32 else c) name) = 0x2E)
   \<longleftrightarrow> (last name = 0x20 \<or> last name = 0x2E)"
  by (auto simp: last_map forbidden_char_def replacement_char_def)

lemma file_name_valid_fix:
  "file_name_valid w32 name True = (True, replace_invalid_chars w32 name)"
  using last_map_fix [of name w32]
  by (auto simp: file_name_valid_def replace_invalid_chars_def file_name_valid_chars_fix Let_def)


lemma mark_skipped_list:
  "for_each_dentry dentry_mark_skipped ds st =
     (None, st\<lparr>extraction_skipped := (\<lambda>q. q \<in> set (map snd ds) \<or> extraction_skipped st q)\<rparr>)"
proof (induction ds arbitrary: st)
  case Nil
  then show ?case by simp
next
  case (Cons x ds)
  obtain t p where x: "x = (t, p)" by (cases x)
  have "(\<lambda>q. q \<in> set (map snd ds) \<or> ((extraction_skipped st)(p := True)) q)
        = (\<lambda>q. q \<in> set (map snd (x # ds)) \<or> extraction_skipped st q)"
    using x by auto
  with Cons x show ?case by (simp add: dentry_mark_skipped_def)
qed

lemma skip_dentry_eq:
  "skip_dentry t p st =
     (None, st\<lparr>extraction_skipped := (\<lambda>q. q \<in> set (subtree_ptrs t p) \<or> extraction_skipped st q)\<rparr>)"
  by (simp add: skip_dentry_def for_dentry_in_tree_preorder mark_skipped_list subtree_ptrs_def)

lemma subtree_ptrs_root: "p \<in> set (subtree_ptrs t p)"
  by (cases t) (simp add: subtree_ptrs_def)

lemma calculate_invalid_name:
  assumes "p \<noteq> []" and "\<not> extraction_skipped st p"
    and "dentry_is_supported W t (supported_features st)"
    and "\<not> dentry_is_dot_or_dotdot (file_name (dentry_of t))"
    and "\<not> (win32 W \<and> \<not> supports_case_sensitive_filenames ops \<and>
            case_insensitive_conflict_list (dentry_of t) \<noteq> [])"
    and "has_invalid_char (win32 W) (file_name (dentry_of t))"
  shows "dentry_calculate_extraction_path W ops t p st =
     (if WIMLIB_EXTRACT_FLAG_REPLACE_INVALID_FILENAMES \<in> ctx_extract_flags st
      then out_replace W t p (print_message (WARNING Warn_invalid_filename_dummy_name) st)
      else skip_dentry t p (print_message (WARNING Warn_invalid_filename_not_extracting) st))"
proof -
  let ?c = "win32 W \<and> \<not> supports_case_sensitive_filenames ops \<and>
            case_insensitive_conflict_list (dentry_of t) \<noteq> []"
  have v: "\<not> fst (file_name_valid (win32 W) (file_name (dentry_of t)) False)"
    using assms(6) by (simp add: file_name_valid_iff)
  have c: "?c = False" using assms(5) by blast
  show ?thesis
    unfolding dentry_calculate_extraction_path_def Let_def c
    using assms(1-4) v by simp
qed

lemma out_replace_success:
  assumes "out_replace W t p st = (None, st')"
  shows "\<exists>tchar_name.
     (if win32 W then Inr (map unat (replace_invalid_chars (win32 W) (file_name (dentry_of t))))
      else utf16le_to_tstr W (replace_invalid_chars (win32 W) (file_name (dentry_of t))))
       = Inr tchar_name \<and>
     extraction_name st' p = Some (tchar_name @ invalid_filename_suffix (Suc (invalid_sequence st))) \<and>
     invalid_sequence st' = Suc (invalid_sequence st) \<and>
     extraction_skipped st' = extraction_skipped st"
  using assms
  by (auto simp: out_replace_def Let_def file_name_valid_fix allocate_def
      split: sum.splits prod.splits bool.splits if_splits)

lemma decimal_example: "invalid_filename_suffix 1 = map of_char '' (invalid filename #1)''"
  by code_simp

text \<open>
  C5, as stated, fails for a dentry that an earlier rule of
  \<^verbatim>\<open>dentry_calculate_extraction_path\<close> takes first. On a POSIX build with
  \<^verbatim>\<open>REPLACE_INVALID_FILENAMES\<close> set, the entry \<^verbatim>\<open>a/b\<close> below the root is a reparse
  point that is no symbolic link, on a backend without reparse points: its name has
  a slash, yet it gets no extraction name and is marked skipped.
\<close>

theorem C5_unsupported_dentry_is_skipped_not_renamed:
  "[0::nat] \<noteq> []
   \<and> has_invalid_char False (file_name (dentry_of slash_reparse_point))
   \<and> WIMLIB_EXTRACT_FLAG_REPLACE_INVALID_FILENAMES \<in> ctx_extract_flags
        (start_state {WIMLIB_EXTRACT_FLAG_REPLACE_INVALID_FILENAMES} unix_features (\<lambda>b. fresh_lte 4 5))
   \<and> fst (dentry_calculate_extraction_path (quiet_world reparse_inodes) posix_ops
        slash_reparse_point [0]
        (start_state {WIMLIB_EXTRACT_FLAG_REPLACE_INVALID_FILENAMES} unix_features (\<lambda>b. fresh_lte 4 5)))
       = None
   \<and> extraction_name (snd (dentry_calculate_extraction_path (quiet_world reparse_inodes) posix_ops
        slash_reparse_point [0]
        (start_state {WIMLIB_EXTRACT_FLAG_REPLACE_INVALID_FILENAMES} unix_features (\<lambda>b. fresh_lte 4 5))))
        [0] = None
   \<and> extraction_skipped (snd (dentry_calculate_extraction_path (quiet_world reparse_inodes) posix_ops
        slash_reparse_point [0]
        (start_state {WIMLIB_EXTRACT_FLAG_REPLACE_INVALID_FILENAMES} unix_features (\<lambda>b. fresh_lte 4 5))))
        [0]"
  by code_simp

text \<open>
  C5, amended. Take a dentry below the root that is not skipped yet, whose type
  the backend supports, whose name is neither \<^verbatim>\<open>.\<close> nor \<^verbatim>\<open>..\<close>, that has (on a
  Windows backend without case-sensitive names) no case-insensitive conflict, and
  whose name has an invalid character. With \<^verbatim>\<open>REPLACE_INVALID_FILENAMES\<close>, whenever
  the function succeeds the extraction name is the name with every offending code
  unit replaced, converted to the host encoding, followed by
  \<^verbatim>\<open> (invalid filename #N)\<close> where N is the counter after its increment by one, and
  the dentry is not skipped. Without the flag, the function succeeds and marks the
  dentry and every dentry of its subtree skipped, naming none and leaving the
  counter alone.
\<close>

theorem C5_invalid_filename_replaced_or_skipped:
  assumes "p \<noteq> []" and "\<not> extraction_skipped st p"
    and "dentry_is_supported W t (supported_features st)"
    and "\<not> dentry_is_dot_or_dotdot (file_name (dentry_of t))"
    and "\<not> (win32 W \<and> \<not> supports_case_sensitive_filenames ops \<and>
            case_insensitive_conflict_list (dentry_of t) \<noteq> [])"
    and "has_invalid_char (win32 W) (file_name (dentry_of t))"
  shows "(WIMLIB_EXTRACT_FLAG_REPLACE_INVALID_FILENAMES \<in> ctx_extract_flags st \<longrightarrow>
          (\<forall>st'. dentry_calculate_extraction_path W ops t p st = (None, st') \<longrightarrow>
            (\<exists>tchar_name.
               (if win32 W
                then Inr (map unat (replace_invalid_chars (win32 W) (file_name (dentry_of t))))
                else utf16le_to_tstr W (replace_invalid_chars (win32 W) (file_name (dentry_of t))))
                 = Inr tchar_name \<and>
               extraction_name st' p =
                 Some (tchar_name @ invalid_filename_suffix (Suc (invalid_sequence st))) \<and>
               invalid_sequence st' = Suc (invalid_sequence st) \<and>
               \<not> extraction_skipped st' p)))
       \<and> (WIMLIB_EXTRACT_FLAG_REPLACE_INVALID_FILENAMES \<notin> ctx_extract_flags st \<longrightarrow>
          (\<exists>st'. dentry_calculate_extraction_path W ops t p st = (None, st') \<and>
             (\<forall>q \<in> set (subtree_ptrs t p). extraction_skipped st' q) \<and>
             extraction_name st' = extraction_name st \<and>
             invalid_sequence st' = invalid_sequence st))"
proof -
  note c = calculate_invalid_name [OF assms]
  have a: "\<exists>tchar_name.
               (if win32 W
                then Inr (map unat (replace_invalid_chars (win32 W) (file_name (dentry_of t))))
                else utf16le_to_tstr W (replace_invalid_chars (win32 W) (file_name (dentry_of t))))
                 = Inr tchar_name \<and>
               extraction_name st' p =
                 Some (tchar_name @ invalid_filename_suffix (Suc (invalid_sequence st))) \<and>
               invalid_sequence st' = Suc (invalid_sequence st) \<and>
               \<not> extraction_skipped st' p"
    if f: "WIMLIB_EXTRACT_FLAG_REPLACE_INVALID_FILENAMES \<in> ctx_extract_flags st"
      and r: "dentry_calculate_extraction_path W ops t p st = (None, st')" for st'
  proof -
    from c f r have "out_replace W t p (print_message (WARNING Warn_invalid_filename_dummy_name) st)
        = (None, st')" by simp
    from out_replace_success [OF this] assms(2) show ?thesis
      by (auto simp: print_message_def)
  qed
  have b: "\<exists>st'. dentry_calculate_extraction_path W ops t p st = (None, st') \<and>
             (\<forall>q \<in> set (subtree_ptrs t p). extraction_skipped st' q) \<and>
             extraction_name st' = extraction_name st \<and>
             invalid_sequence st' = invalid_sequence st"
    if f: "WIMLIB_EXTRACT_FLAG_REPLACE_INVALID_FILENAMES \<notin> ctx_extract_flags st"
    using c f by (simp add: skip_dentry_eq print_message_def)
  from a b show ?thesis by blast
qed

lemma slash_dir_renamed:
  "fst (dentry_calculate_extraction_path (quiet_world slash_inodes) posix_ops slash_dir [0]
     (start_state {WIMLIB_EXTRACT_FLAG_REPLACE_INVALID_FILENAMES} unix_features (\<lambda>b. fresh_lte 4 5)))
   = None"
  by code_simp

lemma slash_dir_conversion:
  "utf16le_to_tstr (quiet_world slash_inodes)
     (replace_invalid_chars False (file_name (dentry_of slash_dir))) = Inr (map of_char ''a?b'')"
  by code_simp

theorem C5_invalid_filename_replaced_or_skipped_witness:
  "extraction_name
     (snd (dentry_calculate_extraction_path (quiet_world slash_inodes) posix_ops slash_dir [0]
        (start_state {WIMLIB_EXTRACT_FLAG_REPLACE_INVALID_FILENAMES} unix_features
           (\<lambda>b. fresh_lte 4 5)))) [0]
   = Some (map of_char ''a?b (invalid filename #1)'')
   \<and> (\<exists>st'. dentry_calculate_extraction_path (quiet_world slash_inodes) posix_ops slash_dir [0]
              (start_state {} unix_features (\<lambda>b. fresh_lte 4 5)) = (None, st')
          \<and> extraction_skipped st' [0] \<and> extraction_skipped st' [0, 0])"
proof -
  let ?W = "quiet_world slash_inodes"
  let ?st = "start_state {WIMLIB_EXTRACT_FLAG_REPLACE_INVALID_FILENAMES} unix_features (\<lambda>b. fresh_lte 4 5)"
  let ?su = "start_state {} unix_features (\<lambda>b. fresh_lte 4 5)"
  have h1: "[0::nat] \<noteq> []" by simp
  have h2: "\<not> extraction_skipped ?st [0]" "\<not> extraction_skipped ?su [0]"
    by (simp_all add: start_state_def)
  have h3: "dentry_is_supported ?W slash_dir (supported_features ?st)"
    "dentry_is_supported ?W slash_dir (supported_features ?su)"
    by code_simp+
  have h4: "\<not> dentry_is_dot_or_dotdot (file_name (dentry_of slash_dir))"
    by code_simp
  have h5: "\<not> (win32 ?W \<and> \<not> supports_case_sensitive_filenames posix_ops \<and>
            case_insensitive_conflict_list (dentry_of slash_dir) \<noteq> [])"
    by (simp add: quiet_world_def)
  have h6: "has_invalid_char (win32 ?W) (file_name (dentry_of slash_dir))"
    by code_simp
  have w: "win32 ?W = False" by (simp add: quiet_world_def)
  have f: "WIMLIB_EXTRACT_FLAG_REPLACE_INVALID_FILENAMES \<in> ctx_extract_flags ?st"
    "WIMLIB_EXTRACT_FLAG_REPLACE_INVALID_FILENAMES \<notin> ctx_extract_flags ?su"
    "invalid_sequence ?st = 0"
    by (simp_all add: start_state_def)
  have r: "dentry_calculate_extraction_path ?W posix_ops slash_dir [0] ?st
         = (None, snd (dentry_calculate_extraction_path ?W posix_ops slash_dir [0] ?st))"
    using slash_dir_renamed by (simp add: prod_eq_iff)
  have s: "[0] \<in> set (subtree_ptrs slash_dir [0])" "[0, 0] \<in> set (subtree_ptrs slash_dir [0])"
    by (simp_all add: subtree_ptrs_def slash_dir_def)
  from C5_invalid_filename_replaced_or_skipped [OF h1 h2(1) h3(1) h4 h5 h6] f r
  have "\<exists>tchar_name.
          utf16le_to_tstr ?W (replace_invalid_chars False (file_name (dentry_of slash_dir)))
             = Inr tchar_name \<and>
          extraction_name (snd (dentry_calculate_extraction_path ?W posix_ops slash_dir [0] ?st)) [0]
             = Some (tchar_name @ invalid_filename_suffix (Suc 0))"
    unfolding w by (simp only: if_False) metis
  then have 1: "extraction_name (snd (dentry_calculate_extraction_path ?W posix_ops slash_dir [0] ?st)) [0]
             = Some (map of_char ''a?b (invalid filename #1)'')"
    using slash_dir_conversion decimal_example by auto
  from C5_invalid_filename_replaced_or_skipped [OF h1 h2(2) h3(2) h4 h5 h6] f(2) s
  have 2: "\<exists>st'. dentry_calculate_extraction_path ?W posix_ops slash_dir [0] ?su = (None, st')
          \<and> extraction_skipped st' [0] \<and> extraction_skipped st' [0, 0]"
    by blast
  from 1 2 show ?thesis by blast
qed


section \<open>Properties of stream extraction\<close>

lemma writes_only_refl: "trace st' = trace st \<Longrightarrow> writes_only src st st'"
  by (simp add: writes_only_def)

lemma writes_only_trans:
  "writes_only src st st1 \<Longrightarrow> writes_only src st1 st2 \<Longrightarrow> writes_only src st st2"
  by (auto simp: writes_only_def)

lemma update_extract_progress_writes:
  "writes_only src st (update_extract_progress l st)"
  by (simp add: update_extract_progress_def writes_only_def Let_def)

lemma stream_operation_writes:
  assumes "\<And>r. uses_source src (ev, r)"
    and "stream_operation W ev src st = (ret, st')"
  shows "writes_only src st st'"
proof -
  have p: "writes_only src st (snd (perform W ev st))"
    using assms(1) by (simp add: perform_def writes_only_def)
  show ?thesis
  proof (cases "fst (perform W ev st)")
    case None
    with assms(2) have "st' = update_extract_progress (lookup_table (snd (perform W ev st)) (source_lte src)) (snd (perform W ev st))"
      by (auto simp: stream_operation_def split: prod.splits)
    with p update_extract_progress_writes show ?thesis
      using writes_only_trans by blast
  next
    case (Some e)
    with assms(2) have "st' = snd (perform W ev st)"
      by (auto simp: stream_operation_def split: prod.splits)
    with p show ?thesis by simp
  qed
qed

lemma print_message_writes: "writes_only src st (print_message m st)"
  by (simp add: print_message_def writes_only_def)

lemma extract_named_streams_writes:
  "extract_named_streams W path entries (Some (b, src)) st = (ret, st') \<Longrightarrow> writes_only src st st'"
proof (induction entries arbitrary: st)
  case Nil
  then show ?case by (simp add: writes_only_def)
next
  case (Cons entry entries)
  show ?case
  proof (cases "ads_entry_is_named_stream entry \<and> lte entry = Some b")
    case False
    with Cons.prems have "extract_named_streams W path entries (Some (b, src)) st = (ret, st')"
      by (auto split: option.splits if_splits)
    from Cons.IH [OF this] show ?thesis .
  next
    case True
    let ?ev = "Op_extract_named_stream path (stream_name entry) src"
    obtain r1 st1 where s: "stream_operation W ?ev src st = (r1, st1)"
      by (cases "stream_operation W ?ev src st")
    have w: "writes_only src st st1"
      using stream_operation_writes [OF _ s] by simp
    show ?thesis
    proof (cases r1)
      case None
      with Cons.prems True s have "extract_named_streams W path entries (Some (b, src)) st1 = (ret, st')"
        by (simp add: source_for_def)
      from Cons.IH [OF this] w show ?thesis using writes_only_trans by blast
    next
      case (Some e)
      with Cons.prems True s have "st' = print_message (ERROR Err_extract_data) st1"
        by (simp add: source_for_def)
      with w print_message_writes show ?thesis using writes_only_trans by blast
    qed
  qed
qed

lemma extract_unnamed_stream_writes:
  assumes "extract_unnamed_stream W path inode (Some (b, src)) st = (ret, st')"
  shows "writes_only src st st'"
proof (cases "inode_unnamed_lte_resolved inode = Some b")
  case False
  with assms show ?thesis
    by (auto simp: extract_unnamed_stream_def writes_only_def split: option.splits)
next
  case True
  let ?ev = "if FILE_ATTRIBUTE_ENCRYPTED \<in> i_attributes inode \<and>
                            encrypted_files (supported_features st) \<noteq> 0
                         then Op_extract_encrypted_stream path src
                         else Op_extract_unnamed_stream path src"
  have u: "\<And>r. uses_source src (?ev, r)" by simp
  show ?thesis
  proof (cases "i_attributes inode \<inter> {FILE_ATTRIBUTE_DIRECTORY, FILE_ATTRIBUTE_REPARSE_POINT} = {}")
    case e: True
    obtain r1 st1 where s: "stream_operation W ?ev src st = (r1, st1)"
      by (cases "stream_operation W ?ev src st")
    from stream_operation_writes [OF u s] have w: "writes_only src st st1" .
    from assms True e s have "st' = st1 \<or> st' = print_message (ERROR Err_extract_data) st1"
      by (auto simp: extract_unnamed_stream_def source_for_def Let_def split: option.splits)
    with w print_message_writes show ?thesis using writes_only_trans by blast
  next
    case ne: False
    show ?thesis
    proof (cases "FILE_ATTRIBUTE_REPARSE_POINT \<in> i_attributes inode")
      case False
      with assms True ne have "st' = st"
        by (auto simp: extract_unnamed_stream_def source_for_def Let_def)
      then show ?thesis by (simp add: writes_only_def)
    next
      case rp: True
      from assms True ne rp have
        "st' = st \<or> stream_operation W (Op_set_reparse_data path src) src st = (ret, st') \<or>
         stream_operation W (Op_create_symlink path src) src st = (ret, st')"
        by (auto simp: extract_unnamed_stream_def source_for_def Let_def split: if_splits)
      then show ?thesis
        using stream_operation_writes [of src "Op_set_reparse_data path src" W st ret st']
          stream_operation_writes [of src "Op_create_symlink path src" W st ret st']
        by (auto simp: writes_only_def)
    qed
  qed
qed

lemma extract_streams_writes:
  assumes "extract_streams W path t dentry (Some (b, src)) st = (ret, st')"
  shows "writes_only src st st'"
proof (cases "was_hardlinked st dentry")
  case True
  with assms show ?thesis by (simp add: extract_streams_def writes_only_def)
next
  case False
  let ?inode = "inodes W (d_inode (dentry_of t))"
  obtain r1 st1 where u: "extract_unnamed_stream W path ?inode (Some (b, src)) st = (r1, st1)"
    by (cases "extract_unnamed_stream W path ?inode (Some (b, src)) st")
  note w = extract_unnamed_stream_writes [OF u]
  from assms False u have
    "st' = st1 \<or> extract_named_streams W path (i_ads_entries ?inode) (Some (b, src)) st1 = (ret, st')"
    by (auto simp: extract_streams_def Let_def split: option.splits if_splits)
  with w extract_named_streams_writes show ?thesis
    using writes_only_trans by blast
qed

lemma build_extraction_path_trace:
  "build_extraction_path ops dentry st = (r, st') \<Longrightarrow> trace st' = trace st"
  by (auto simp: build_extraction_path_def Let_def print_message_def split: if_splits)

lemma extract_instances_writes:
  "extract_instances W ops root b src dentries st = (ret, st') \<Longrightarrow> writes_only src st st'"
proof (induction dentries arbitrary: st)
  case Nil
  then show ?case by (simp add: writes_only_def)
next
  case (Cons dentry dentries)
  show ?case
  proof (cases "dentry_at root dentry")
    case None
    with Cons show ?thesis by simp
  next
    case (Some t)
    show ?thesis
    proof (cases "tmp_flag st dentry")
      case True
      with Cons Some show ?thesis by simp
    next
      case False
      obtain p st1 where bp: "build_extraction_path ops dentry st = (p, st1)"
        by (cases "build_extraction_path ops dentry st")
      from build_extraction_path_trace [OF bp] have w1: "writes_only src st st1"
        by (simp add: writes_only_def)
      show ?thesis
      proof (cases p)
        case None
        with Cons.prems Some False bp
        have "extract_instances W ops root b src dentries st1 = (ret, st')" by simp
        from Cons.IH [OF this] w1 show ?thesis using writes_only_trans by blast
      next
        case (Some path)
        obtain r2 st2 where es: "extract_streams W path t dentry (Some (b, src)) st1 = (r2, st2)"
          by (cases "extract_streams W path t dentry (Some (b, src)) st1")
        note w2 = extract_streams_writes [OF es]
        show ?thesis
        proof (cases r2)
          case (Some e)
          with Cons.prems \<open>dentry_at root dentry = Some t\<close> False bp \<open>p = Some path\<close> es
          have "st' = st2" by simp
          with w1 w2 show ?thesis using writes_only_trans by blast
        next
          case None
          with Cons.prems \<open>dentry_at root dentry = Some t\<close> False bp \<open>p = Some path\<close> es
          have "extract_instances W ops root b src dentries
                  (st2\<lparr>tmp_flag := (tmp_flag st2)(dentry := True)\<rparr>) = (ret, st')" by simp
          from Cons.IH [OF this] have "writes_only src st2 st'"
            by (simp add: writes_only_def)
          with w1 w2 show ?thesis using writes_only_trans by blast
        qed
      qed
    qed
  qed
qed


lemma perform_trace:
  "perform W ev st = (r, st') \<Longrightarrow> trace st' = trace st @ [(ev, r)]"
  by (auto simp: perform_def)

lemma allocate_trace: "allocate W st = (r, st') \<Longrightarrow> trace st' = trace st"
  by (auto simp: allocate_def)

lemma clear_tmp_flags_trace: "trace (clear_tmp_flags ds st) = trace st"
  by (simp add: clear_tmp_flags_def)

lemma print_message_trace: "trace (print_message m st) = trace st"
  by (simp add: print_message_def)

lemma extract_stream_instances_direct:
  assumes "extract_stream_instances W ops root b can_seek st = (ret, st')"
    and "can_seek \<or> out_refcnt (lookup_table st b) < 2"
  shows "writes_only (In_lookup_table b) st st'"
proof -
  let ?l = "lookup_table st b"
  let ?ds = "take (out_refcnt ?l)
                      (if out_refcnt ?l \<le> inline_len W then inline_lte_dentries ?l
                       else lte_dentries ?l)"
  obtain r1 st1 where e: "extract_instances W ops root b (In_lookup_table b) ?ds st = (r1, st1)"
    by (cases "extract_instances W ops root b (In_lookup_table b) ?ds st")
  with assms have "st' = clear_tmp_flags ?ds st1"
    by (auto simp: extract_stream_instances_def Let_def)
  with extract_instances_writes [OF e] show ?thesis
    by (simp add: writes_only_def clear_tmp_flags_trace)
qed

lemma extract_stream_instances_temporary:
  assumes "extract_stream_instances W ops root b can_seek st = (ret, st')"
    and "\<not> can_seek" and "2 \<le> out_refcnt (lookup_table st b)"
  shows "(trace st' = trace st \<and> ret \<noteq> None)
       \<or> (\<exists>name e. trace st' = trace st @ [(Sys_open_temporary_file name, Some e)] \<and>
                   ret = Some WIMLIB_ERR_OPEN)
       \<or> (\<exists>name r1 r2 ws ru.
             trace st' = trace st @
               [(Sys_open_temporary_file name, None), (Sys_extract_resource_to_fd b name, r1),
                (Sys_close_temporary_file name, r2)] @ ws @ [(Sys_unlink name, ru)]
             \<and> list_all (uses_source (In_temporary_file b name)) ws
             \<and> (r1 \<noteq> None \<or> r2 \<noteq> None \<longrightarrow> ws = [] \<and> ret \<noteq> None))"
proof -
  let ?l = "lookup_table st b"
  let ?ds = "take (out_refcnt ?l)
                      (if out_refcnt ?l \<le> inline_len W then inline_lte_dentries ?l
                       else lte_dentries ?l)"
  from assms(2,3) have n: "\<not> (can_seek \<or> out_refcnt ?l < 2)" by simp
  show ?thesis
  proof (cases "tempnam_result W (trace st)")
    case None
    with assms(1) n have "trace st' = trace st \<and> ret \<noteq> None"
      by (auto simp: extract_stream_instances_def Let_def print_message_trace)
    then show ?thesis by blast
  next
    case (Some name)
    obtain a st1 where al: "allocate W st = (a, st1)" by (cases "allocate W st")
    note t1 = allocate_trace [OF al]
    show ?thesis
    proof (cases a)
      case False
      with assms(1) n Some al t1 have "trace st' = trace st \<and> ret \<noteq> None"
        by (auto simp: extract_stream_instances_def Let_def)
      then show ?thesis by blast
    next
      case True
      obtain ro st2 where op: "perform W (Sys_open_temporary_file name) st1 = (ro, st2)"
        by (cases "perform W (Sys_open_temporary_file name) st1")
      note t2 = perform_trace [OF op]
      show ?thesis
      proof (cases ro)
        case (Some e)
        with assms(1) n \<open>tempnam_result W (trace st) = Some name\<close> al True op t1 t2
        have "trace st' = trace st @ [(Sys_open_temporary_file name, Some e)] \<and>
                   ret = Some WIMLIB_ERR_OPEN"
          by (auto simp: extract_stream_instances_def Let_def print_message_trace)
        then show ?thesis by blast
      next
        case None
        obtain r1 st3 where ex: "perform W (Sys_extract_resource_to_fd b name) st2 = (r1, st3)"
          by (cases "perform W (Sys_extract_resource_to_fd b name) st2")
        obtain r2 st4 where cl: "perform W (Sys_close_temporary_file name) st3 = (r2, st4)"
          by (cases "perform W (Sys_close_temporary_file name) st3")
        note t3 = perform_trace [OF ex]
        note t4 = perform_trace [OF cl]
        let ?ret = "if r2 \<noteq> None \<and> r1 = None then Some WIMLIB_ERR_WRITE else r1"
        have t4': "trace st4 = trace st @
               [(Sys_open_temporary_file name, None), (Sys_extract_resource_to_fd b name, r1),
                (Sys_close_temporary_file name, r2)]"
          using t1 t2 t3 t4 None by simp
        show ?thesis
        proof (cases "?ret = None")
          case False
          obtain ru st5 where un: "perform W (Sys_unlink name) st4 = (ru, st5)"
            by (cases "perform W (Sys_unlink name) st4")
          from assms(1) n \<open>tempnam_result W (trace st) = Some name\<close> al True op None ex cl False un
          have "st' = st5" and "ret = ?ret"
            by (auto simp: extract_stream_instances_def Let_def split: if_splits)
          with perform_trace [OF un] t4' False
          have "trace st' = trace st @
               [(Sys_open_temporary_file name, None), (Sys_extract_resource_to_fd b name, r1),
                (Sys_close_temporary_file name, r2)] @ [] @ [(Sys_unlink name, ru)]
             \<and> list_all (uses_source (In_temporary_file b name)) []
             \<and> (r1 \<noteq> None \<or> r2 \<noteq> None \<longrightarrow> [] = ([]::history) \<and> ret \<noteq> None)"
            by auto
          then show ?thesis by blast
        next
          case ok: True
          then have r12: "r1 = None" "r2 = None" by (auto split: if_splits)
          obtain r3 st5 where ei: "extract_instances W ops root b (In_temporary_file b name) ?ds st4
               = (r3, st5)"
            by (cases "extract_instances W ops root b (In_temporary_file b name) ?ds st4")
          obtain ru st6 where un: "perform W (Sys_unlink name) (clear_tmp_flags ?ds st5) = (ru, st6)"
            by (cases "perform W (Sys_unlink name) (clear_tmp_flags ?ds st5)")
          from assms(1) n \<open>tempnam_result W (trace st) = Some name\<close> al True op None ex cl r12 ei un
          have "st' = st6"
            by (simp add: extract_stream_instances_def Let_def)
          moreover from extract_instances_writes [OF ei] obtain ws where
            ws: "trace st5 = trace st4 @ ws" "list_all (uses_source (In_temporary_file b name)) ws"
            by (auto simp: writes_only_def)
          ultimately have "trace st' = trace st @
               [(Sys_open_temporary_file name, None), (Sys_extract_resource_to_fd b name, r1),
                (Sys_close_temporary_file name, r2)] @ ws @ [(Sys_unlink name, ru)]"
            using perform_trace [OF un] t4' by (simp add: clear_tmp_flags_trace)
          with ws(2) r12 show ?thesis by blast
        qed
      qed
    qed
  qed
qed

text \<open>
  C3. With a source that cannot seek and at least two references, a call of
  \<^verbatim>\<open>extract_stream_instances\<close> does one of three things. It fails before any
  operation (no temporary name, or no memory for the substitute descriptor). It
  fails to open the temporary file, and that is its only operation. Or it opens the
  file, extracts the blob into it once and closes it; then come only backend
  operations that are given the substitute descriptor of that file, and progress
  reports, and none at all if the extraction or the close failed; and the last
  operation, on success and on failure alike, unlinks the file. With a source that
  can seek, or fewer than two references, every operation is a backend operation
  given the blob itself, or a progress report: no temporary file is made.
\<close>

theorem C3_temporary_file_when_source_cannot_seek:
  assumes "extract_stream_instances W ops root b can_seek st = (ret, st')"
  shows "(\<not> can_seek \<and> 2 \<le> out_refcnt (lookup_table st b) \<longrightarrow>
           (trace st' = trace st \<and> ret \<noteq> None)
         \<or> (\<exists>name e. trace st' = trace st @ [(Sys_open_temporary_file name, Some e)] \<and>
                     ret = Some WIMLIB_ERR_OPEN)
         \<or> (\<exists>name r1 r2 ws ru.
               trace st' = trace st @
                 [(Sys_open_temporary_file name, None), (Sys_extract_resource_to_fd b name, r1),
                  (Sys_close_temporary_file name, r2)] @ ws @ [(Sys_unlink name, ru)]
               \<and> list_all (uses_source (In_temporary_file b name)) ws
               \<and> (r1 \<noteq> None \<or> r2 \<noteq> None \<longrightarrow> ws = [] \<and> ret \<noteq> None)))
       \<and> (can_seek \<or> out_refcnt (lookup_table st b) < 2 \<longrightarrow>
            writes_only (In_lookup_table b) st st')"
  using extract_stream_instances_temporary [OF assms] extract_stream_instances_direct [OF assms]
  by blast

lemma three_files_refcnt: "out_refcnt (lookup_table three_files_planned 0) = 3"
  by code_simp

lemma three_files_extracted:
  "fst (extract_stream_instances (quiet_world three_files_inodes) posix_ops three_files_image 0
          False three_files_planned) = None"
  by code_simp

lemma three_files_trace:
  "trace (snd (extract_stream_instances (quiet_world three_files_inodes) posix_ops
                 three_files_image 0 False three_files_planned))
   = [(Sys_open_temporary_file [0], None),
      (Sys_extract_resource_to_fd 0 [0], None),
      (Sys_close_temporary_file [0], None),
      (Op_extract_unnamed_stream (map of_char ''/a'') (In_temporary_file 0 [0]), None),
      (Op_extract_unnamed_stream (map of_char ''/b'') (In_temporary_file 0 [0]), None),
      (Op_extract_unnamed_stream (map of_char ''/c'') (In_temporary_file 0 [0]), None),
      (Sys_unlink [0], None)]"
  by code_simp

theorem C3_temporary_file_when_source_cannot_seek_witness:
  "out_refcnt (lookup_table three_files_planned 0) = 3
   \<and> trace (snd (extract_stream_instances (quiet_world three_files_inodes) posix_ops
                 three_files_image 0 False three_files_planned))
     = [(Sys_open_temporary_file [0], None),
        (Sys_extract_resource_to_fd 0 [0], None),
        (Sys_close_temporary_file [0], None),
        (Op_extract_unnamed_stream (map of_char ''/a'') (In_temporary_file 0 [0]), None),
        (Op_extract_unnamed_stream (map of_char ''/b'') (In_temporary_file 0 [0]), None),
        (Op_extract_unnamed_stream (map of_char ''/c'') (In_temporary_file 0 [0]), None),
        (Sys_unlink [0], None)]
   \<and> (\<exists>name r1 r2 ws ru.
         trace (snd (extract_stream_instances (quiet_world three_files_inodes) posix_ops
                 three_files_image 0 False three_files_planned))
         = trace three_files_planned @
             [(Sys_open_temporary_file name, None), (Sys_extract_resource_to_fd 0 name, r1),
              (Sys_close_temporary_file name, r2)] @ ws @ [(Sys_unlink name, ru)]
         \<and> list_all (uses_source (In_temporary_file 0 name)) ws)"
proof -
  let ?X = "extract_stream_instances (quiet_world three_files_inodes) posix_ops
                 three_files_image 0 False three_files_planned"
  have h: "?X = (None, snd ?X)"
    using three_files_extracted by (simp add: prod_eq_iff)
  have n: "\<not> False \<and> 2 \<le> out_refcnt (lookup_table three_files_planned 0)"
    by (simp add: three_files_refcnt)
  from C3_temporary_file_when_source_cannot_seek [OF h] n
  have "\<exists>name r1 r2 ws ru.
         trace (snd ?X) = trace three_files_planned @
             [(Sys_open_temporary_file name, None), (Sys_extract_resource_to_fd 0 name, r1),
              (Sys_close_temporary_file name, r2)] @ ws @ [(Sys_unlink name, ru)]
         \<and> list_all (uses_source (In_temporary_file 0 name)) ws"
    by blast
  with three_files_refcnt three_files_trace show ?thesis by blast
qed


section \<open>Properties of the extraction from a pipe\<close>
























section \<open>The feature check and the driver\<close>




























lemma one_file_result:
  "fst (extract_tree (quiet_world three_files_inodes) plain_ops (Some one_file) []
          {WIMLIB_EXTRACT_FLAG_TO_STDOUT} False 0 no_files
          (start_state {} no_features (\<lambda>b. fresh_lte 4 5))) = None"
  by code_simp



lemma one_file_regular:
  "i_attributes (inodes (quiet_world three_files_inodes) (d_inode (dentry_of one_file))) \<inter>
     {FILE_ATTRIBUTE_REPARSE_POINT, FILE_ATTRIBUTE_DIRECTORY} = {}"
  by (simp add: quiet_world_def three_files_inodes_def one_file_def named_def file_inode_def)

lemma one_file_stream:
  "inode_unnamed_lte_resolved
     (inodes (quiet_world three_files_inodes) (d_inode (dentry_of one_file))) = Some 0"
  by (simp add: quiet_world_def three_files_inodes_def one_file_def named_def file_inode_def
      inode_unnamed_lte_resolved_def)


end
